theory Spec2Isabelle
  imports Complex_Main
begin

section \<open>Synthetic site generation: gene regions and relative position\<close>

text \<open>
  The generator \<^verbatim>\<open>generate_realistic_bed\<close> (\<^verbatim>\<open>generate_enhanced_data.py\<close>) picks a gene,
  splits it into three regions, draws a position inside a chosen region and records the
  position relative to the gene start. Python integers are \<^typ>\<open>int\<close>. Python floats
  are modelled by exact rationals: the products \<^verbatim>\<open>gene_length * 0.2\<close> and
  \<^verbatim>\<open>gene_length * 0.6\<close> are taken in \<^typ>\<open>rat\<close>, and \<^verbatim>\<open>int(...)\<close> truncates towards zero.
  For lengths in the genomic range the double products have the integer parts of the exact
  ones: an exact product is an integer, which the rounded product returns, or lies at
  least 0.2 from the nearest integer. Midpoints \<^verbatim>\<open>(start + end) / 2\<close> are half-integers and
  exact as doubles; the quotient \<^verbatim>\<open>relative_pos\<close> is the exact one up to rounding.
\<close>

datatype error = ValueError | ZeroDivisionError | KeyError | TypeError

datatype strand = Plus | Minus

datatype region = utr5 | cds | utr3

record gene =
  g_chrom :: string
  g_start :: int
  g_end :: int
  g_name :: string
  g_strand :: strand

text \<open>Python's \<^verbatim>\<open>int(x)\<close> on a float: truncation towards zero.\<close>

definition py_int :: "rat \<Rightarrow> int" where
  "py_int q = (if 0 \<le> q then \<lfloor>q\<rfloor> else \<lceil>q\<rceil>)"

definition gene_length :: "gene \<Rightarrow> int" where
  "gene_length g = g_end g - g_start g"

definition utr5_length :: "gene \<Rightarrow> int" where
  "utr5_length g = py_int (of_int (gene_length g) * (2 / 10))"

definition cds_length :: "gene \<Rightarrow> int" where
  "cds_length g = py_int (of_int (gene_length g) * (6 / 10))"

definition utr3_length :: "gene \<Rightarrow> int" where
  "utr3_length g = gene_length g - utr5_length g - cds_length g"

definition utr5_end :: "gene \<Rightarrow> int" where
  "utr5_end g =
     (if g_strand g = Plus then g_start g + utr5_length g
      else g_end g - utr3_length g - cds_length g)"

definition cds_end :: "gene \<Rightarrow> int" where
  "cds_end g = utr5_end g + cds_length g"

text \<open>
  The bounds \<open>(low, high)\<close> handed to \<^verbatim>\<open>np.random.randint(low, high)\<close> for the chosen
  region: the half-open interval the position is drawn from.
\<close>

fun region_range :: "gene \<Rightarrow> region \<Rightarrow> int \<times> int" where
  "region_range g utr5 =
     (if g_strand g = Plus then (g_start g, utr5_end g) else (cds_end g, g_end g))"
| "region_range g cds =
     (utr5_end g, min (cds_end g) (utr5_end g + cds_length g))"
| "region_range g utr3 =
     (if g_strand g = Plus then (cds_end g, g_end g) else (g_start g, utr5_end g))"

fun feature_of :: "region \<Rightarrow> string" where
  "feature_of utr5 = ''5UTR''"
| "feature_of cds = ''CDS''"
| "feature_of utr3 = ''3UTR''"

text \<open>
  \<^verbatim>\<open>np.random.randint(low, high)\<close> raises \<^verbatim>\<open>ValueError\<close> when \<open>low \<ge> high\<close> and otherwise
  returns some integer of \<open>[low, high)\<close>; the natural number \<open>r\<close> stands for the state of
  the random source and selects the integer.
\<close>

definition randint :: "int \<Rightarrow> int \<Rightarrow> nat \<Rightarrow> error + int" where
  "randint low high r =
     (if low \<ge> high then Inl ValueError else Inr (low + int r mod (high - low)))"

text \<open>Python's true division of two integers.\<close>

definition truediv :: "int \<Rightarrow> int \<Rightarrow> error + rat" where
  "truediv a b = (if b = 0 then Inl ZeroDivisionError else Inr (of_int a / of_int b))"

text \<open>
  A row of a site table. \<open>endp\<close> is the column \<^verbatim>\<open>end\<close>. The columns \<^verbatim>\<open>strand\<close>,
  \<^verbatim>\<open>feature\<close>, \<^verbatim>\<open>relative_pos\<close> and \<^verbatim>\<open>site_id\<close> may be absent from a table (\<open>None\<close>).
  The columns \<^verbatim>\<open>name\<close> and \<^verbatim>\<open>score\<close> play no part in what follows and are left out.
\<close>

datatype site_id = PSI nat | M6A nat

record site =
  chrom :: string
  start :: int
  endp :: int
  strand :: "strand option"
  feature :: "string option"
  relative_pos :: "rat option"
  site_id :: "site_id option"

text \<open>The tail of the loop body: the relative position and the new row.\<close>

definition annotate :: "gene \<Rightarrow> region \<Rightarrow> int \<Rightarrow> error + site" where
  "annotate g reg pos =
     (case truediv (pos - g_start g) (gene_length g) of
        Inl e \<Rightarrow> Inl e
      | Inr rp \<Rightarrow>
          Inr \<lparr>chrom = g_chrom g, start = pos, endp = pos + 1,
               strand = Some (g_strand g), feature = Some (feature_of reg),
               relative_pos = Some rp, site_id = None\<rparr>)"

text \<open>One iteration of the generator loop for gene \<open>g\<close> and drawn region \<open>reg\<close>.\<close>

definition generate_site :: "gene \<Rightarrow> region \<Rightarrow> nat \<Rightarrow> error + site" where
  "generate_site g reg r =
     (case randint (fst (region_range g reg)) (snd (region_range g reg)) r of
        Inl e \<Rightarrow> Inl e
      | Inr pos \<Rightarrow> annotate g reg pos)"

subsection \<open>The mock generator\<close>

text \<open>
  \<^verbatim>\<open>generate_mock_psi\<close> (\<^verbatim>\<open>1_data_fetching.py\<close>) builds its genes from a start and a
  length, stores the two cut points with the gene, and draws the strand of a site
  independently of the region; its genes carry no strand.
\<close>

record mock_gene =
  mg_chrom :: string
  gene_start :: int
  gene_end :: int
  mg_utr5_end :: int
  mg_cds_end :: int
  mg_gene_length :: int

definition make_mock_gene :: "string \<Rightarrow> int \<Rightarrow> int \<Rightarrow> mock_gene" where
  "make_mock_gene c gs gl =
     (let u5 = py_int (of_int gl * (2 / 10));
          cl = py_int (of_int gl * (6 / 10))
      in \<lparr>mg_chrom = c, gene_start = gs, gene_end = gs + gl,
          mg_utr5_end = gs + u5, mg_cds_end = gs + u5 + cl, mg_gene_length = gl\<rparr>)"

fun mock_region_range :: "mock_gene \<Rightarrow> region \<Rightarrow> int \<times> int" where
  "mock_region_range mg utr5 = (gene_start mg, mg_utr5_end mg)"
| "mock_region_range mg cds = (mg_utr5_end mg, mg_cds_end mg)"
| "mock_region_range mg utr3 = (mg_cds_end mg, gene_end mg)"

text \<open>One iteration of the site loop; \<open>sd\<close> is the strand drawn for the site.\<close>

definition generate_mock_psi_site ::
    "mock_gene \<Rightarrow> region \<Rightarrow> nat \<Rightarrow> strand \<Rightarrow> error + site" where
  "generate_mock_psi_site mg reg r sd =
     (case randint (fst (mock_region_range mg reg)) (snd (mock_region_range mg reg)) r of
        Inl e \<Rightarrow> Inl e
      | Inr pos \<Rightarrow>
          (case truediv (pos - gene_start mg) (mg_gene_length mg) of
             Inl e \<Rightarrow> Inl e
           | Inr rp \<Rightarrow>
               Inr \<lparr>chrom = mg_chrom mg, start = pos, endp = pos + 1,
                    strand = Some sd, feature = Some (feature_of reg),
                    relative_pos = Some rp, site_id = None\<rparr>))"


section \<open>Windowed colocalization: \<^verbatim>\<open>ColocalizationAnalyzer\<close>\<close>

text \<open>
  The analyzer of \<^verbatim>\<open>4_venn_analysis.py\<close> keeps references to the two data frames it is
  given, so the caller's frames and the analyzer's are the same objects. A frame is a list
  of rows; the store maps a reference to the frame it currently holds. A row of a table
  read from a file may carry further columns (\<^verbatim>\<open>name\<close>, \<^verbatim>\<open>score\<close>, ...): they are the
  extension \<open>site.more\<close> of the row record, of any type \<open>'a\<close>.
\<close>

type_synonym 'a frame = "'a site_scheme list"

type_synonym ref = nat

type_synonym 'a store = "ref \<Rightarrow> 'a frame"

record pair_info =
  psi_id :: site_id
  m6a_id :: site_id
  pair_chrom :: string
  psi_pos :: int
  m6a_pos :: int
  distance :: int
  psi_feature :: string
  m6a_feature :: string
  psi_strand :: strand
  m6a_strand :: strand

record 'a analyzer =
  psi_df :: ref
  m6a_df :: ref
  window :: int
  colocalized_sites :: "pair_info list option"
  psi_only :: "'a frame option"
  m6a_only :: "'a frame option"

text \<open>
  \<^verbatim>\<open>df['site_id'] = [tag + str(i) for i in range(len(df))]\<close>: the column is created, or
  overwritten, in the frame itself. The identifier \<^verbatim>\<open>'PSI_' + str(i)\<close> is the value
  \<open>PSI i\<close>, and \<^verbatim>\<open>'M6A_' + str(i)\<close> is \<open>M6A i\<close>.
\<close>

definition assign_site_ids :: "(nat \<Rightarrow> site_id) \<Rightarrow> 'a frame \<Rightarrow> 'a frame" where
  "assign_site_ids tag df =
     map (\<lambda>(i, row). row\<lparr>site_id := Some (tag i)\<rparr>) (zip [0 ..< length df] df)"

definition analyzer_init :: "'a store \<Rightarrow> ref \<Rightarrow> ref \<Rightarrow> int \<Rightarrow> 'a store \<times> 'a analyzer" where
  "analyzer_init st psi m6a w =
     (let st1 = st(psi := assign_site_ids PSI (st psi));
          st2 = st1(m6a := assign_site_ids M6A (st1 m6a))
      in (st2, \<lparr>psi_df = psi, m6a_df = m6a, window = w,
                colocalized_sites = None, psi_only = None, m6a_only = None\<rparr>))"

text \<open>\<^verbatim>\<open>(row['start'] + row['end']) / 2\<close>, a float.\<close>

definition center :: "'a site_scheme \<Rightarrow> rat" where
  "center row = of_int (start row + endp row) / 2"

text \<open>The boolean mask that selects \<^verbatim>\<open>nearby_m6a\<close> for one \<open>\<Psi>\<close> row.\<close>

definition within_window :: "int \<Rightarrow> 'a site_scheme \<Rightarrow> 'a site_scheme \<Rightarrow> bool" where
  "within_window w psi_row m6a_row \<longleftrightarrow>
     chrom m6a_row = chrom psi_row \<and> \<bar>center m6a_row - center psi_row\<bar> \<le> of_int w"

definition nearby_m6a :: "int \<Rightarrow> 'a site_scheme \<Rightarrow> 'a frame \<Rightarrow> 'a frame" where
  "nearby_m6a w psi_row df = filter (within_window w psi_row) df"

text \<open>The dictionary \<^verbatim>\<open>pair_info\<close>, once both identifiers have been read.\<close>

definition pair_record ::
    "site_id \<Rightarrow> site_id \<Rightarrow> 'a site_scheme \<Rightarrow> 'a site_scheme \<Rightarrow> pair_info" where
  "pair_record pid mid psi_row m6a_row =
     \<lparr>psi_id = pid, m6a_id = mid, pair_chrom = chrom psi_row,
      psi_pos = py_int (center psi_row),
      m6a_pos = py_int (center m6a_row),
      distance = py_int \<bar>center psi_row - center m6a_row\<bar>,
      psi_feature = (case feature psi_row of None \<Rightarrow> ''Unknown'' | Some f \<Rightarrow> f),
      m6a_feature = (case feature m6a_row of None \<Rightarrow> ''Unknown'' | Some f \<Rightarrow> f),
      psi_strand = (case strand psi_row of None \<Rightarrow> Plus | Some s \<Rightarrow> s),
      m6a_strand = (case strand m6a_row of None \<Rightarrow> Plus | Some s \<Rightarrow> s)\<rparr>"

text \<open>\<^verbatim>\<open>row['site_id']\<close> raises \<^verbatim>\<open>KeyError\<close> when the column is absent.\<close>

definition make_pair :: "'a site_scheme \<Rightarrow> 'a site_scheme \<Rightarrow> error + pair_info" where
  "make_pair psi_row m6a_row =
     (case site_id psi_row of
        None \<Rightarrow> Inl KeyError
      | Some pid \<Rightarrow>
          (case site_id m6a_row of
             None \<Rightarrow> Inl KeyError
           | Some mid \<Rightarrow> Inr (pair_record pid mid psi_row m6a_row)))"

text \<open>The inner loop over \<^verbatim>\<open>nearby_m6a\<close>, appending to \<^verbatim>\<open>colocalized_pairs\<close>.\<close>

fun append_pairs ::
    "'a site_scheme \<Rightarrow> 'a frame \<Rightarrow> pair_info list \<Rightarrow> error + pair_info list" where
  "append_pairs psi_row [] acc = Inr acc"
| "append_pairs psi_row (m6a_row # rest) acc =
     (case make_pair psi_row m6a_row of
        Inl e \<Rightarrow> Inl e
      | Inr p \<Rightarrow> append_pairs psi_row rest (acc @ [p]))"

text \<open>The outer loop over the rows of the \<open>\<Psi>\<close> frame.\<close>

fun scan_psi ::
    "int \<Rightarrow> 'a frame \<Rightarrow> 'a frame \<Rightarrow> pair_info list \<Rightarrow> error + pair_info list" where
  "scan_psi w [] m6a acc = Inr acc"
| "scan_psi w (psi_row # rest) m6a acc =
     (case append_pairs psi_row (nearby_m6a w psi_row m6a) acc of
        Inl e \<Rightarrow> Inl e
      | Inr acc' \<Rightarrow> scan_psi w rest m6a acc')"

text \<open>
  A method takes the store and the analyzer and returns both as it leaves them.
  \<^verbatim>\<open>find_colocalized_sites\<close> stores the pair table in the analyzer and returns it; an
  empty table is stored when no pair was found. It assigns to no frame.
\<close>

definition find_colocalized_sites ::
    "'a store \<Rightarrow> 'a analyzer \<Rightarrow> error + ('a store \<times> 'a analyzer \<times> pair_info list)" where
  "find_colocalized_sites st a =
     (case scan_psi (window a) (st (psi_df a)) (st (m6a_df a)) [] of
        Inl e \<Rightarrow> Inl e
      | Inr ps \<Rightarrow> Inr (st, a\<lparr>colocalized_sites := Some ps\<rparr>, ps))"

text \<open>\<^verbatim>\<open>if self.colocalized_sites is None: self.find_colocalized_sites()\<close>\<close>

definition ensure_colocalized ::
    "'a store \<Rightarrow> 'a analyzer \<Rightarrow> error + ('a store \<times> 'a analyzer \<times> pair_info list)" where
  "ensure_colocalized st a =
     (case colocalized_sites a of
        None \<Rightarrow> find_colocalized_sites st a
      | Some ps \<Rightarrow> Inr (st, a, ps))"

text \<open>
  \<^verbatim>\<open>df[~df['site_id'].isin(ids)]\<close>: the rows whose identifier is not among \<open>ids\<close>, in
  their order. Reading the column raises \<^verbatim>\<open>KeyError\<close> when it is absent.
\<close>

fun rows_not_isin :: "site_id set \<Rightarrow> 'a frame \<Rightarrow> error + 'a frame" where
  "rows_not_isin ids [] = Inr []"
| "rows_not_isin ids (row # rest) =
     (case site_id row of
        None \<Rightarrow> Inl KeyError
      | Some i \<Rightarrow>
          (case rows_not_isin ids rest of
             Inl e \<Rightarrow> Inl e
           | Inr kept \<Rightarrow> Inr (if i \<in> ids then kept else row # kept)))"

definition categorize_sites :: "'a store \<Rightarrow> 'a analyzer \<Rightarrow> error + ('a store \<times> 'a analyzer)" where
  "categorize_sites st a =
     (case ensure_colocalized st a of
        Inl e \<Rightarrow> Inl e
      | Inr (st', a', ps) \<Rightarrow>
          (let colocalized_psi_ids = set (map psi_id ps);
               colocalized_m6a_ids = set (map m6a_id ps)
           in case rows_not_isin colocalized_psi_ids (st' (psi_df a')) of
                Inl e \<Rightarrow> Inl e
              | Inr po \<Rightarrow>
                  (case rows_not_isin colocalized_m6a_ids (st' (m6a_df a')) of
                     Inl e \<Rightarrow> Inl e
                   | Inr mo \<Rightarrow> Inr (st', a'\<lparr>psi_only := Some po, m6a_only := Some mo\<rparr>))))"

text \<open>
  \<^verbatim>\<open>get_venn_counts\<close>: \<^verbatim>\<open>len(set(colocalized_sites['psi_id']))\<close> is the number of distinct
  \<open>\<Psi>\<close> identifiers among the pairs; \<^verbatim>\<open>len(None)\<close> raises \<^verbatim>\<open>TypeError\<close>.
\<close>

definition get_venn_counts ::
    "'a store \<Rightarrow> 'a analyzer \<Rightarrow> error + ('a store \<times> 'a analyzer \<times> (nat \<times> nat \<times> nat))" where
  "get_venn_counts st a =
     (case ensure_colocalized st a of
        Inl e \<Rightarrow> Inl e
      | Inr (st', a', ps) \<Rightarrow>
          (let overlap_count = length (remdups (map psi_id ps))
           in case psi_only a' of
                None \<Rightarrow> Inl TypeError
              | Some po \<Rightarrow>
                  (case m6a_only a' of
                     None \<Rightarrow> Inl TypeError
                   | Some mo \<Rightarrow> Inr (st', a', (length po, length mo, overlap_count)))))"

text \<open>
  The steps of \<^verbatim>\<open>main\<close>: construct the analyzer, find the pairs, categorize, count.
  The result holds the store after the run, the analyzer and the three counts.
\<close>

definition colocalization_run ::
    "'a store \<Rightarrow> ref \<Rightarrow> ref \<Rightarrow> int
      \<Rightarrow> error + ('a store \<times> 'a analyzer \<times> (nat \<times> nat \<times> nat))" where
  "colocalization_run st psi m6a w =
     (case analyzer_init st psi m6a w of
        (st0, a0) \<Rightarrow>
          (case find_colocalized_sites st0 a0 of
             Inl e \<Rightarrow> Inl e
           | Inr (st1, a1, colocalized_df) \<Rightarrow>
               (case categorize_sites st1 a1 of
                  Inl e \<Rightarrow> Inl e
                | Inr (st2, a2) \<Rightarrow> get_venn_counts st2 a2)))"

subsection \<open>The scan of \<^verbatim>\<open>RealDataAnalyzer\<close>\<close>

text \<open>
  \<^verbatim>\<open>RealDataAnalyzer\<close> (\<^verbatim>\<open>analyze_real_data.py\<close>) holds its own two frames: \<open>\<Psi>\<close> rows with
  an interval and m6A rows with a peak position, each with whatever further columns the
  files have (the extension of the row record). \<^verbatim>\<open>colocalization_analysis\<close> first writes
  the columns \<^verbatim>\<open>chrom_std\<close> and \<^verbatim>\<open>center\<close> into both frames, which are absent (\<open>None\<close>) in
  the files, and then scans the frames.
\<close>

record real_psi =
  rd_chrom :: string
  rd_start :: int
  rd_end :: int
  rd_chrom_std :: "string option"
  rd_center :: "int option"

record real_m6a =
  rm_chrom :: string
  peak_pos :: int
  rm_chrom_std :: "string option"
  rm_center :: "int option"

record ('a, 'b) real_analyzer =
  real_psi_df :: "'a real_psi_scheme list"
  real_m6a_df :: "'b real_m6a_scheme list"

record real_pair =
  rp_chrom :: string
  rp_psi_pos :: int
  rp_m6a_pos :: int
  rp_distance :: int

text \<open>\<^verbatim>\<open>str.replace('chr', '')\<close>: every occurrence, from the left, without overlap.\<close>

fun remove_chr :: "string \<Rightarrow> string" where
  "remove_chr [] = []"
| "remove_chr (c # cs) =
     (if take 3 (c # cs) = ''chr'' then remove_chr (drop 2 cs) else c # remove_chr cs)"

text \<open>
  The four column assignments, in the order of the source: \<^verbatim>\<open>chrom_std\<close> of both
  frames, then \<^verbatim>\<open>center = (start + end) // 2\<close> of the \<open>\<Psi>\<close> frame and
  \<^verbatim>\<open>center = peak_pos\<close> of the m6A frame.
\<close>

definition write_columns :: "('a, 'b) real_analyzer \<Rightarrow> ('a, 'b) real_analyzer" where
  "write_columns a =
     (let a1 = a\<lparr>real_psi_df :=
                  map (\<lambda>r. r\<lparr>rd_chrom_std := Some (remove_chr (rd_chrom r))\<rparr>) (real_psi_df a)\<rparr>;
          a2 = a1\<lparr>real_m6a_df :=
                  map (\<lambda>r. r\<lparr>rm_chrom_std := Some (remove_chr (rm_chrom r))\<rparr>) (real_m6a_df a1)\<rparr>;
          a3 = a2\<lparr>real_psi_df :=
                  map (\<lambda>r. r\<lparr>rd_center := Some ((rd_start r + rd_end r) div 2)\<rparr>)
                    (real_psi_df a2)\<rparr>
      in a3\<lparr>real_m6a_df := map (\<lambda>r. r\<lparr>rm_center := Some (peak_pos r)\<rparr>) (real_m6a_df a3)\<rparr>)"

text \<open>
  \<^verbatim>\<open>m6a_chrom[abs(m6a_chrom['center'] - psi_pos) <= window]\<close>; reading a column that is
  absent raises \<^verbatim>\<open>KeyError\<close>.
\<close>

fun nearby_peaks ::
    "int \<Rightarrow> int \<Rightarrow> 'b real_m6a_scheme list \<Rightarrow> error + 'b real_m6a_scheme list" where
  "nearby_peaks w ppos [] = Inr []"
| "nearby_peaks w ppos (m6a_row # rest) =
     (case rm_center m6a_row of
        None \<Rightarrow> Inl KeyError
      | Some c \<Rightarrow>
          (case nearby_peaks w ppos rest of
             Inl e \<Rightarrow> Inl e
           | Inr near \<Rightarrow> Inr (if \<bar>c - ppos\<bar> \<le> w then m6a_row # near else near)))"

text \<open>The inner loop: one dictionary for every nearby row.\<close>

fun append_real_pairs ::
    "string \<Rightarrow> int \<Rightarrow> 'b real_m6a_scheme list \<Rightarrow> real_pair list \<Rightarrow> error + real_pair list" where
  "append_real_pairs c ppos [] acc = Inr acc"
| "append_real_pairs c ppos (m6a_row # rest) acc =
     (case rm_center m6a_row of
        None \<Rightarrow> Inl KeyError
      | Some mc \<Rightarrow>
          append_real_pairs c ppos rest
            (acc @ [\<lparr>rp_chrom = c, rp_psi_pos = ppos, rp_m6a_pos = mc,
                     rp_distance = \<bar>ppos - mc\<bar>\<rparr>]))"

text \<open>The loop over the \<open>\<Psi>\<close> rows of one chromosome; the state is the counter and the pairs.\<close>

fun scan_chrom ::
    "int \<Rightarrow> string \<Rightarrow> 'a real_psi_scheme list \<Rightarrow> 'b real_m6a_scheme list
      \<Rightarrow> nat \<times> real_pair list \<Rightarrow> error + nat \<times> real_pair list" where
  "scan_chrom w c [] m6a_chrom acc = Inr acc"
| "scan_chrom w c (psi_row # rest) m6a_chrom (colocalized, pairs) =
     (case rd_center psi_row of
        None \<Rightarrow> Inl KeyError
      | Some ppos \<Rightarrow>
          (case nearby_peaks w ppos m6a_chrom of
             Inl e \<Rightarrow> Inl e
           | Inr nearby \<Rightarrow>
               if length nearby > 0
               then (case append_real_pairs c ppos nearby pairs of
                       Inl e \<Rightarrow> Inl e
                     | Inr pairs' \<Rightarrow>
                         scan_chrom w c rest m6a_chrom (colocalized + length nearby, pairs'))
               else scan_chrom w c rest m6a_chrom (colocalized, pairs)))"

text \<open>
  The loop over the chromosomes common to both frames, each with the rows of either frame
  whose \<^verbatim>\<open>chrom_std\<close> it is. Python iterates over a set, in no fixed order: the list
  \<open>chroms\<close> is the order of one run.
\<close>

fun scan_chroms ::
    "int \<Rightarrow> string list \<Rightarrow> 'a real_psi_scheme list \<Rightarrow> 'b real_m6a_scheme list
      \<Rightarrow> nat \<times> real_pair list \<Rightarrow> error + nat \<times> real_pair list" where
  "scan_chroms w [] psi m6a acc = Inr acc"
| "scan_chroms w (c # cs) psi m6a acc =
     (case scan_chrom w c (filter (\<lambda>r. rd_chrom_std r = Some c) psi)
             (filter (\<lambda>r. rm_chrom_std r = Some c) m6a) acc of
        Inl e \<Rightarrow> Inl e
      | Inr acc' \<Rightarrow> scan_chroms w cs psi m6a acc')"

text \<open>
  The method returns the analyzer with the frames as it leaves them, the three counts,
  and here also the pair table it writes to a file.
\<close>

definition colocalization_analysis ::
    "int \<Rightarrow> string list \<Rightarrow> ('a, 'b) real_analyzer
      \<Rightarrow> error + (('a, 'b) real_analyzer \<times> (nat \<times> nat \<times> nat) \<times> real_pair list)" where
  "colocalization_analysis w chroms a =
     (let a' = write_columns a
      in case scan_chroms w chroms (real_psi_df a') (real_m6a_df a') (0, []) of
           Inl e \<Rightarrow> Inl e
         | Inr (colocalized, pairs) \<Rightarrow>
             Inr (a', (colocalized, length (real_psi_df a'), length (real_m6a_df a')), pairs))"

section \<open>Auxiliary definitions for the statements\<close>

text \<open>The set of positions a draw for region \<open>reg\<close> of gene \<open>g\<close> can return.\<close>

definition region_set :: "gene \<Rightarrow> region \<Rightarrow> int set" where
  "region_set g reg = {fst (region_range g reg) ..< snd (region_range g reg)}"

text \<open>
  The sub-intervals of a gene on the minus strand as the specification words them, with
  \<open>u5 = floor(0.2 L)\<close> and \<open>c = floor(0.6 L)\<close>: \<open>[end - u5, end)\<close> is the 5'UTR,
  \<open>[end - u5 - c, end - u5)\<close> the CDS and \<open>[start, end - u5 - c)\<close> the 3'UTR.
\<close>

definition spec_minus_range :: "gene \<Rightarrow> region \<Rightarrow> int \<times> int" where
  "spec_minus_range g reg =
     (let L = g_end g - g_start g;
          u5 = \<lfloor>of_int L * (2 / 10 :: rat)\<rfloor>;
          c = \<lfloor>of_int L * (6 / 10 :: rat)\<rfloor>
      in case reg of
           utr5 \<Rightarrow> (g_end g - u5, g_end g)
         | cds \<Rightarrow> (g_end g - u5 - c, g_end g - u5)
         | utr3 \<Rightarrow> (g_start g, g_end g - u5 - c))"

text \<open>The gene of \<^verbatim>\<open>generate_realistic_bed\<close> that a mock gene corresponds to.\<close>

definition plus_gene :: "string \<Rightarrow> int \<Rightarrow> int \<Rightarrow> gene" where
  "plus_gene c gs gl =
     \<lparr>g_chrom = c, g_start = gs, g_end = gs + gl, g_name = [], g_strand = Plus\<rparr>"

text \<open>
  The pair table as the specification words it: one record for every combination of a row
  \<open>i\<close> of the first frame and a row \<open>j\<close> of the second that lie on the same chromosome with
  centres at most \<open>w\<close> apart.
\<close>

definition spec_all_pairs :: "int \<Rightarrow> 'a frame \<Rightarrow> 'a frame \<Rightarrow> pair_info list" where
  "spec_all_pairs w A B =
     map (\<lambda>(i, j). pair_record (PSI i) (M6A j) (A ! i) (B ! j))
       (filter (\<lambda>(i, j). chrom (A ! i) = chrom (B ! j)
                  \<and> \<bar>center (A ! i) - center (B ! j)\<bar> \<le> of_int w)
          (List.product [0 ..< length A] [0 ..< length B]))"

text \<open>What the two loops append when every row carries an identifier.\<close>

definition scanned_pairs :: "int \<Rightarrow> 'a frame \<Rightarrow> 'a frame \<Rightarrow> pair_info list" where
  "scanned_pairs w A B =
     concat (map (\<lambda>a. map (\<lambda>m. pair_record (the (site_id a)) (the (site_id m)) a m)
                     (nearby_m6a w a B)) A)"

text \<open>A row whose identifier is not among \<open>ids\<close>.\<close>

definition id_outside :: "site_id set \<Rightarrow> 'a site_scheme \<Rightarrow> bool" where
  "id_outside ids row \<longleftrightarrow> (\<forall>i \<in> ids. site_id row \<noteq> Some i)"

text \<open>
  Coordinates in the genomic range: not negative and below \<open>2^52\<close>, where the midpoints
  and their differences are exact as doubles and as 64-bit integers.
\<close>

definition genomic :: "'a site_scheme \<Rightarrow> bool" where
  "genomic row \<longleftrightarrow> 0 \<le> start row \<and> start row < 2 ^ 52 \<and> 0 \<le> endp row \<and> endp row < 2 ^ 52"

definition genomic_psi :: "'a real_psi_scheme \<Rightarrow> bool" where
  "genomic_psi row \<longleftrightarrow>
     0 \<le> rd_start row \<and> rd_start row < 2 ^ 52 \<and> 0 \<le> rd_end row \<and> rd_end row < 2 ^ 52"

definition genomic_m6a :: "'b real_m6a_scheme \<Rightarrow> bool" where
  "genomic_m6a row \<longleftrightarrow> 0 \<le> peak_pos row \<and> peak_pos row < 2 ^ 52"

text \<open>
  Two rows that agree on every column other than \<^verbatim>\<open>site_id\<close>, the further columns of the
  extension included.
\<close>

definition same_but_site_id :: "'a site_scheme \<Rightarrow> 'a site_scheme \<Rightarrow> bool" where
  "same_but_site_id row row' \<longleftrightarrow>
     chrom row' = chrom row \<and> start row' = start row \<and> endp row' = endp row
     \<and> strand row' = strand row \<and> feature row' = feature row
     \<and> relative_pos row' = relative_pos row \<and> site.more row' = site.more row"

text \<open>
  A pair record \<open>p\<close> that is consistent with the input rows \<open>ra\<close> and \<open>rb\<close> for window
  \<open>w\<close>: the chromosome of both rows, the truncated midpoints (the floor of the midpoint
  for non-negative coordinates), and the truncated distance of the untruncated midpoints,
  between 0 and \<open>w\<close>.
\<close>

definition pair_consistent :: "int \<Rightarrow> 'a site_scheme \<Rightarrow> 'a site_scheme \<Rightarrow> pair_info \<Rightarrow> bool" where
  "pair_consistent w ra rb p \<longleftrightarrow>
     pair_chrom p = chrom ra \<and> pair_chrom p = chrom rb
   \<and> psi_pos p = py_int (of_int (start ra + endp ra) / 2)
   \<and> m6a_pos p = py_int (of_int (start rb + endp rb) / 2)
   \<and> (0 \<le> start ra + endp ra \<longrightarrow> psi_pos p = (start ra + endp ra) div 2)
   \<and> (0 \<le> start rb + endp rb \<longrightarrow> m6a_pos p = (start rb + endp rb) div 2)
   \<and> distance p = py_int \<bar>of_int (start ra + endp ra) / 2 - of_int (start rb + endp rb) / 2\<bar>
   \<and> distance p = \<lfloor>\<bar>of_int (start ra + endp ra) / 2 - of_int (start rb + endp rb) / 2 :: rat\<bar>\<rfloor>
   \<and> 0 \<le> distance p \<and> distance p \<le> w"

text \<open>
  The member rows of a pair record \<open>p\<close> of the first matcher: the rows \<open>i\<close> and \<open>j\<close> of the
  two frames as they are after the run, which carry the identifiers recorded in \<open>p\<close>.
\<close>

definition member_rows :: "'a frame \<Rightarrow> 'a frame \<Rightarrow> pair_info \<Rightarrow> nat \<Rightarrow> nat \<Rightarrow> bool" where
  "member_rows A' B' p i j \<longleftrightarrow>
     i < length A' \<and> j < length B'
   \<and> site_id (A' ! i) = Some (psi_id p) \<and> site_id (B' ! j) = Some (m6a_id p)"

text \<open>
  Rows of the second matcher that agree on every column other than \<^verbatim>\<open>chrom_std\<close> and
  \<^verbatim>\<open>center\<close>.
\<close>

definition same_but_columns_psi :: "'a real_psi_scheme \<Rightarrow> 'a real_psi_scheme \<Rightarrow> bool" where
  "same_but_columns_psi row row' \<longleftrightarrow>
     rd_chrom row' = rd_chrom row \<and> rd_start row' = rd_start row \<and> rd_end row' = rd_end row
     \<and> real_psi.more row' = real_psi.more row"

definition same_but_columns_m6a :: "'b real_m6a_scheme \<Rightarrow> 'b real_m6a_scheme \<Rightarrow> bool" where
  "same_but_columns_m6a row row' \<longleftrightarrow>
     rm_chrom row' = rm_chrom row \<and> peak_pos row' = peak_pos row
     \<and> real_m6a.more row' = real_m6a.more row"

text \<open>\<^verbatim>\<open>(start + end) // 2\<close> of a \<open>\<Psi>\<close> row of the second matcher.\<close>

definition psi_center :: "'a real_psi_scheme \<Rightarrow> int" where
  "psi_center row = (rd_start row + rd_end row) div 2"

text \<open>The record the second scan appends for a \<open>\<Psi>\<close> row and an m6A row.\<close>

definition real_pair_of :: "'a real_psi_scheme \<Rightarrow> 'b real_m6a_scheme \<Rightarrow> real_pair" where
  "real_pair_of a b =
     \<lparr>rp_chrom = remove_chr (rd_chrom a), rp_psi_pos = psi_center a, rp_m6a_pos = peak_pos b,
      rp_distance = \<bar>psi_center a - peak_pos b\<bar>\<rparr>"

text \<open>A row of the second matcher after the four column assignments.\<close>

definition written_psi :: "'a real_psi_scheme \<Rightarrow> 'a real_psi_scheme" where
  "written_psi r =
     r\<lparr>rd_chrom_std := Some (remove_chr (rd_chrom r)),
       rd_center := Some ((rd_start r + rd_end r) div 2)\<rparr>"

definition written_m6a :: "'b real_m6a_scheme \<Rightarrow> 'b real_m6a_scheme" where
  "written_m6a r =
     r\<lparr>rm_chrom_std := Some (remove_chr (rm_chrom r)), rm_center := Some (peak_pos r)\<rparr>"

text \<open>
  What the second scan appends for one chromosome name, given the rows of that chromosome,
  and for a list of chromosome names, given the two frames.
\<close>

definition chrom_pairs ::
    "int \<Rightarrow> string \<Rightarrow> 'a real_psi_scheme list \<Rightarrow> 'b real_m6a_scheme list \<Rightarrow> real_pair list" where
  "chrom_pairs w c ps ms =
     concat (map (\<lambda>p. map (\<lambda>m. \<lparr>rp_chrom = c, rp_psi_pos = psi_center p,
                                 rp_m6a_pos = peak_pos m,
                                 rp_distance = \<bar>psi_center p - peak_pos m\<bar>\<rparr>)
                    (filter (\<lambda>m. \<bar>peak_pos m - psi_center p\<bar> \<le> w) ms)) ps)"

definition all_chrom_pairs ::
    "int \<Rightarrow> string list \<Rightarrow> 'a real_psi_scheme list \<Rightarrow> 'b real_m6a_scheme list
      \<Rightarrow> real_pair list" where
  "all_chrom_pairs w cs psi m6a =
     concat (map (\<lambda>c. chrom_pairs w c (filter (\<lambda>r. remove_chr (rd_chrom r) = c) psi)
                        (filter (\<lambda>r. remove_chr (rm_chrom r) = c) m6a)) cs)"

text \<open>
  A pair record \<open>p\<close> of the second matcher that is consistent with the \<open>\<Psi>\<close> row \<open>a\<close> and
  the m6A row \<open>b\<close> for window \<open>w\<close>: the chromosome name of both rows without \<^verbatim>\<open>chr\<close>, the
  floor of the midpoint of the \<open>\<Psi>\<close> interval, the peak position of the m6A row, and the
  distance of these two integers, between 0 and \<open>w\<close>.
\<close>

definition real_pair_consistent ::
    "int \<Rightarrow> 'a real_psi_scheme \<Rightarrow> 'b real_m6a_scheme \<Rightarrow> real_pair \<Rightarrow> bool" where
  "real_pair_consistent w a b p \<longleftrightarrow>
     rp_chrom p = remove_chr (rd_chrom a) \<and> rp_chrom p = remove_chr (rm_chrom b)
   \<and> rp_psi_pos p = (rd_start a + rd_end a) div 2
   \<and> rp_m6a_pos p = peak_pos b
   \<and> rp_distance p = \<bar>(rd_start a + rd_end a) div 2 - peak_pos b\<bar>
   \<and> 0 \<le> rp_distance p \<and> rp_distance p \<le> w"

subsection \<open>Concrete inputs\<close>

text \<open>The first two entries of \<^verbatim>\<open>REAL_GENES\<close>, a gene of length one, and a round gene.\<close>

definition DDX11L1 :: gene where
  "DDX11L1 = \<lparr>g_chrom = ''chr1'', g_start = 11874, g_end = 14409,
              g_name = ''DDX11L1'', g_strand = Plus\<rparr>"

definition WASH7P :: gene where
  "WASH7P = \<lparr>g_chrom = ''chr1'', g_start = 14363, g_end = 29806,
             g_name = ''WASH7P'', g_strand = Minus\<rparr>"


definition round_gene :: gene where
  "round_gene = \<lparr>g_chrom = ''chr1'', g_start = 1000, g_end = 2000,
                 g_name = ''round'', g_strand = Plus\<rparr>"

text \<open>A one-base row at position \<open>p\<close> of chromosome \<open>c\<close>, without the optional columns.\<close>

definition bed_row :: "string \<Rightarrow> int \<Rightarrow> site" where
  "bed_row c p = \<lparr>chrom = c, start = p, endp = p + 1, strand = None, feature = None,
                  relative_pos = None, site_id = None\<rparr>"

text \<open>
  A store with a \<open>\<Psi>\<close> frame at reference 0 and an m6A frame at reference 1: the m6A rows
  lie 50, 51, 30 and 10 bases from the \<open>\<Psi>\<close> row, and one lies on another chromosome.
\<close>

definition example_store :: "unit store" where
  "example_store =
     (\<lambda>_. [])(0 := [bed_row ''chr1'' 1500],
              1 := [bed_row ''chr1'' 1550, bed_row ''chr1'' 1551, bed_row ''chr1'' 1530,
                    bed_row ''chr1'' 1510, bed_row ''chr2'' 1500])"

text \<open>
  An analyzer of the second kind with one \<open>\<Psi>\<close> row, of interval \<open>[200, 203)\<close>, and two m6A
  rows, with peaks 251 and 252, all on \<^verbatim>\<open>chr1\<close>.
\<close>

definition example_real :: "(unit, unit) real_analyzer" where
  "example_real =
     \<lparr>real_psi_df = [\<lparr>rd_chrom = ''chr1'', rd_start = 200, rd_end = 203,
                       rd_chrom_std = None, rd_center = None\<rparr>],
      real_m6a_df = [\<lparr>rm_chrom = ''chr1'', peak_pos = 251, rm_chrom_std = None,
                       rm_center = None\<rparr>,
                     \<lparr>rm_chrom = ''chr1'', peak_pos = 252, rm_chrom_std = None,
                       rm_center = None\<rparr>]\<rparr>"

section \<open>Gene regions: arithmetic of the boundaries\<close>

lemma py_int_nonneg: "0 \<le> q \<Longrightarrow> py_int q = \<lfloor>q\<rfloor>"
  by (simp add: py_int_def)

lemma utr5_length_div:
  assumes "0 \<le> gene_length g"
  shows "utr5_length g = gene_length g div 5"
proof -
  have "(of_int (gene_length g) * (2 / 10) :: rat) = of_int (gene_length g) / of_int 5"
    by simp
  moreover have "(0::rat) \<le> of_int (gene_length g) / of_int 5"
    using assms by simp
  ultimately show ?thesis
    unfolding utr5_length_def
    by (simp only: py_int_nonneg floor_divide_of_int_eq)
qed

lemma cds_length_div:
  assumes "0 \<le> gene_length g"
  shows "cds_length g = (3 * gene_length g) div 5"
proof -
  have "(of_int (gene_length g) * (6 / 10) :: rat) = of_int (3 * gene_length g) / of_int 5"
    by simp
  moreover have "(0::rat) \<le> of_int (3 * gene_length g) / of_int 5"
    using assms by simp
  ultimately show ?thesis
    unfolding cds_length_def
    by (simp only: py_int_nonneg floor_divide_of_int_eq)
qed

lemma lengths_bounds:
  assumes "0 \<le> gene_length g"
  shows "0 \<le> utr5_length g" "0 \<le> cds_length g" "utr5_length g + cds_length g \<le> gene_length g"
  using assms by (simp_all add: utr5_length_div cds_length_div)

text \<open>
  On the minus strand \<^verbatim>\<open>utr5_end\<close> is \<^verbatim>\<open>end - utr3_length - cds_length\<close>, which is again
  \<open>start + utr5_length\<close>: both strands use the same two cut points.
\<close>

lemma utr5_end_eq: "utr5_end g = g_start g + utr5_length g"
  by (simp add: utr5_end_def utr3_length_def gene_length_def)

lemma cds_end_eq: "cds_end g = g_start g + utr5_length g + cds_length g"
  by (simp add: cds_end_def utr5_end_eq)

lemma region_range_plus:
  assumes "g_strand g = Plus"
  shows "region_range g utr5 = (g_start g, g_start g + utr5_length g)"
    and "region_range g cds =
           (g_start g + utr5_length g, g_start g + utr5_length g + cds_length g)"
    and "region_range g utr3 = (g_start g + utr5_length g + cds_length g, g_end g)"
  using assms by (simp_all add: utr5_end_eq cds_end_eq)

lemma region_range_minus:
  assumes "g_strand g = Minus"
  shows "region_range g utr5 = (g_start g + utr5_length g + cds_length g, g_end g)"
    and "region_range g cds =
           (g_start g + utr5_length g, g_start g + utr5_length g + cds_length g)"
    and "region_range g utr3 = (g_start g, g_start g + utr5_length g)"
  using assms by (simp_all add: utr5_end_eq cds_end_eq)


lemma region_set_within_gene:
  assumes "g_start g < g_end g"
  shows "region_set g reg \<subseteq> {g_start g ..< g_end g}"
proof -
  have L: "0 \<le> gene_length g" using assms by (simp add: gene_length_def)
  note b = lengths_bounds [OF L]
  have e: "g_end g = g_start g + gene_length g" by (simp add: gene_length_def)
  show ?thesis
  proof (cases "g_strand g")
    case Plus
    show ?thesis using b e
      by (cases reg) (auto simp add: region_set_def region_range_plus [OF Plus]
          simp del: region_range.simps)
  next
    case Minus
    show ?thesis using b e
      by (cases reg) (auto simp add: region_set_def region_range_minus [OF Minus]
          simp del: region_range.simps)
  qed
qed

subsection \<open>The random draw\<close>

lemma randint_in_range:
  assumes "low < high"
  shows "\<exists>pos. randint low high r = Inr pos \<and> low \<le> pos \<and> pos < high"
proof -
  have "0 < high - low" using assms by simp
  from pos_mod_bound [OF this, of "int r"] pos_mod_sign [OF this, of "int r"]
  have "low + int r mod (high - low) < high" and "low \<le> low + int r mod (high - low)"
    by linarith+
  then show ?thesis using assms by (simp add: randint_def)
qed

text \<open>Every position of a non-empty range is returned for some state of the source.\<close>

lemma randint_any:
  assumes "low \<le> pos" and "pos < high"
  shows "\<exists>r. randint low high r = Inr pos"
proof -
  have "int (nat (pos - low)) mod (high - low) = pos - low"
    using assms by simp
  then have "randint low high (nat (pos - low)) = Inr pos"
    using assms by (simp add: randint_def)
  then show ?thesis ..
qed

subsection \<open>The mock generator draws as the plus strand does\<close>

lemma mock_region_range_plus:
  "mock_region_range (make_mock_gene c gs gl) reg = region_range (plus_gene c gs gl) reg"
  by (cases reg)
     (simp_all add: make_mock_gene_def plus_gene_def Let_def utr5_end_def cds_end_def
        utr5_length_def cds_length_def gene_length_def)

lemma generate_mock_psi_site_plus:
  "generate_mock_psi_site (make_mock_gene c gs gl) reg r sd =
     map_sum id (\<lambda>s. s\<lparr>strand := Some sd\<rparr>) (generate_site (plus_gene c gs gl) reg r)"
proof -
  have "gene_start (make_mock_gene c gs gl) = g_start (plus_gene c gs gl)"
    and "mg_gene_length (make_mock_gene c gs gl) = gene_length (plus_gene c gs gl)"
    and "mg_chrom (make_mock_gene c gs gl) = g_chrom (plus_gene c gs gl)"
    by (simp_all add: make_mock_gene_def plus_gene_def Let_def gene_length_def)
  then show ?thesis
    unfolding generate_mock_psi_site_def generate_site_def annotate_def mock_region_range_plus
    by (simp split: sum.split)
qed

subsection \<open>The minus strand\<close>

lemma spec_minus_range_lengths:
  assumes "0 \<le> gene_length g"
  shows "spec_minus_range g reg =
     (case reg of
        utr5 \<Rightarrow> (g_end g - utr5_length g, g_end g)
      | cds \<Rightarrow> (g_end g - utr5_length g - cds_length g, g_end g - utr5_length g)
      | utr3 \<Rightarrow> (g_start g, g_end g - utr5_length g - cds_length g))"
proof -
  have "0 \<le> (of_int (gene_length g) * (2 / 10) :: rat)"
    and "0 \<le> (of_int (gene_length g) * (6 / 10) :: rat)"
    using assms by simp_all
  then have "utr5_length g = \<lfloor>of_int (g_end g - g_start g) * (2 / 10 :: rat)\<rfloor>"
    and "cds_length g = \<lfloor>of_int (g_end g - g_start g) * (6 / 10 :: rat)\<rfloor>"
    unfolding utr5_length_def cds_length_def py_int_def gene_length_def
    by (simp_all only: if_True)
  then show ?thesis
    by (simp only: spec_minus_range_def Let_def)
qed

text \<open>
  The intervals of the code and those of the specification coincide on the minus strand
  when the gene length is a multiple of five, where the remainder \<^verbatim>\<open>utr3_length\<close> equals
  \<^verbatim>\<open>utr5_length\<close>.
\<close>

lemma spec_minus_range_agrees:
  assumes "g_strand g = Minus" and "0 \<le> gene_length g" and "gene_length g mod 5 = 0"
  shows "spec_minus_range g reg = region_range g reg"
proof -
  have s: "gene_length g - utr5_length g - cds_length g = utr5_length g"
    using assms(2,3) unfolding utr5_length_div [OF assms(2)] cds_length_div [OF assms(2)]
    by presburger
  then have a: "g_end g - utr5_length g = g_start g + utr5_length g + cds_length g"
    and b: "g_end g - utr5_length g - cds_length g = g_start g + utr5_length g"
    by (simp_all add: gene_length_def)
  show ?thesis
    unfolding spec_minus_range_lengths [OF assms(2)] using a b
    by (cases reg) (simp_all add: region_range_minus [OF assms(1)] del: region_range.simps)
qed

text \<open>They differ for every other positive length.\<close>

lemma spec_minus_range_differs:
  assumes "g_strand g = Minus" and "0 < gene_length g" and "gene_length g mod 5 \<noteq> 0"
  shows "region_range g utr5 \<noteq> spec_minus_range g utr5"
proof -
  have L: "0 \<le> gene_length g" using assms(2) by simp
  have "gene_length g - utr5_length g - cds_length g \<noteq> utr5_length g"
    using assms(2,3) unfolding utr5_length_div [OF L] cds_length_div [OF L]
    by presburger
  then have "g_start g + utr5_length g + cds_length g \<noteq> g_end g - utr5_length g"
    by (simp add: gene_length_def)
  then show ?thesis
    unfolding spec_minus_range_lengths [OF L] region_range_minus [OF assms(1)] by simp
qed

text \<open>
  Claim C2. For a gene on the minus strand the specification places the 5'UTR at
  \<open>[end - u5, end)\<close>, the CDS at \<open>[end - u5 - c, end - u5)\<close> and the 3'UTR at
  \<open>[start, end - u5 - c)\<close>. For \<^verbatim>\<open>WASH7P\<close> (length 15443, \<open>u5 = 3088\<close>, \<open>c = 9265\<close>) the
  generator draws the 5'UTR from \<open>[26716, 29806)\<close>, which has the length of the remainder
  \<^verbatim>\<open>utr3_length = 3090\<close>, where the specification has \<open>[26718, 29806)\<close>; the CDS and
  3'UTR intervals are shifted by the same two bases.
\<close>

theorem minus_strand_ranges_WASH7P:
  "region_range WASH7P utr5 = (26716, 29806) \<and>
   region_range WASH7P cds = (17451, 26716) \<and>
   region_range WASH7P utr3 = (14363, 17451) \<and>
   spec_minus_range WASH7P utr5 = (26718, 29806) \<and>
   spec_minus_range WASH7P cds = (17453, 26718) \<and>
   spec_minus_range WASH7P utr3 = (14363, 17453)"
  by code_simp

subsection \<open>Partition of the gene body\<close>

text \<open>
  Claim C4. For every gene with \<open>start < end\<close>, on either strand, the three intervals the
  positions are drawn from are pairwise disjoint and their union is \<open>[start, end)\<close>.
\<close>

theorem regions_partition_gene:
  assumes "g_start g < g_end g"
  shows "region_set g utr5 \<union> region_set g cds \<union> region_set g utr3 = {g_start g ..< g_end g}
       \<and> region_set g utr5 \<inter> region_set g cds = {}
       \<and> region_set g utr5 \<inter> region_set g utr3 = {}
       \<and> region_set g cds \<inter> region_set g utr3 = {}"
proof -
  have L: "0 \<le> gene_length g" using assms by (simp add: gene_length_def)
  note b = lengths_bounds [OF L]
  have e: "g_end g = g_start g + gene_length g" by (simp add: gene_length_def)
  show ?thesis
  proof (cases "g_strand g")
    case Plus
    show ?thesis
      unfolding region_set_def region_range_plus [OF Plus] fst_conv snd_conv
      using b e by auto
  next
    case Minus
    show ?thesis
      unfolding region_set_def region_range_minus [OF Minus] fst_conv snd_conv
      using b e by auto
  qed
qed

theorem regions_partition_gene_witness:
  "g_start DDX11L1 < g_end DDX11L1 \<and> g_strand DDX11L1 = Plus
   \<and> region_set DDX11L1 utr5 \<union> region_set DDX11L1 cds \<union> region_set DDX11L1 utr3
       = {11874 ..< 14409}
   \<and> region_set DDX11L1 utr5 \<inter> region_set DDX11L1 cds = {}
   \<and> g_start WASH7P < g_end WASH7P \<and> g_strand WASH7P = Minus
   \<and> region_set WASH7P utr5 \<union> region_set WASH7P cds \<union> region_set WASH7P utr3
       = {14363 ..< 29806}
   \<and> region_set WASH7P utr5 \<inter> region_set WASH7P cds = {}"
proof -
  have p: "g_start DDX11L1 < g_end DDX11L1" and ps: "g_strand DDX11L1 = Plus"
    and "g_start DDX11L1 = 11874" and "g_end DDX11L1 = 14409"
    by (simp_all add: DDX11L1_def)
  moreover have m: "g_start WASH7P < g_end WASH7P" and ms: "g_strand WASH7P = Minus"
    and "g_start WASH7P = 14363" and "g_end WASH7P = 29806"
    by (simp_all add: WASH7P_def)
  ultimately show ?thesis
    using regions_partition_gene [OF p] regions_partition_gene [OF m] by simp
qed

subsection \<open>Relative position\<close>

text \<open>
  Claim C5. For every position \<open>p\<close> with \<open>start \<le> p < end\<close> and either strand, the row
  built for \<open>p\<close> has \<open>relative_pos = (p - start) / (end - start)\<close>, measured from the
  genomic start whatever the strand, and this value lies between 0 and 1.
\<close>

theorem annotate_relative_pos:
  assumes "g_start g \<le> p" and "p < g_end g"
  shows "\<exists>s rp. annotate (g\<lparr>g_strand := sd\<rparr>) reg p = Inr s \<and> relative_pos s = Some rp
           \<and> rp = of_int (p - g_start g) / of_int (g_end g - g_start g)
           \<and> 0 \<le> rp \<and> rp \<le> 1"
proof -
  have "g_end g - g_start g \<noteq> 0" using assms by simp
  moreover have "(0::rat) \<le> of_int (p - g_start g) / of_int (g_end g - g_start g)"
    using assms by simp
  moreover have "of_int (p - g_start g) / of_int (g_end g - g_start g) \<le> (1::rat)"
    using assms by (simp add: divide_le_eq_1)
  ultimately show ?thesis
    by (simp add: annotate_def truediv_def gene_length_def)
qed

theorem annotate_relative_pos_witness:
  "g_start round_gene \<le> 1100 \<and> 1100 < g_end round_gene
   \<and> (\<exists>s. annotate (round_gene\<lparr>g_strand := Minus\<rparr>) utr5 1100 = Inr s
          \<and> relative_pos s = Some (1 / 10))
   \<and> (\<exists>s. annotate (round_gene\<lparr>g_strand := Plus\<rparr>) utr5 1100 = Inr s
          \<and> relative_pos s = Some (1 / 10))"
proof -
  have a: "g_start round_gene \<le> 1100" and b: "1100 < g_end round_gene"
    by (simp_all add: round_gene_def)
  have v: "(of_int (1100 - g_start round_gene) / of_int (g_end round_gene - g_start round_gene)
             :: rat) = 1 / 10"
    by (simp add: round_gene_def)
  from annotate_relative_pos [OF a b, of Minus utr5] annotate_relative_pos [OF a b, of Plus utr5]
  show ?thesis unfolding v using a b by blast
qed

text \<open>
  The generator builds rows only for positions it has drawn inside the gene, so every row
  it returns carries this relative position.
\<close>

lemma generate_site_position:
  assumes "g_start g < g_end g" and "generate_site g reg r = Inr s"
  shows "start s \<in> region_set g reg"
    and "g_start g \<le> start s" and "start s < g_end g"
    and "relative_pos s = Some (of_int (start s - g_start g) / of_int (g_end g - g_start g))"
proof -
  let ?lo = "fst (region_range g reg)" and ?hi = "snd (region_range g reg)"
  from assms(2) obtain pos where
    d: "randint ?lo ?hi r = Inr pos" and a: "annotate g reg pos = Inr s"
    by (auto simp add: generate_site_def split: sum.splits)
  from d have lt: "?lo < ?hi"
    by (simp add: randint_def split: if_splits)
  from randint_in_range [OF lt, of r] d have "?lo \<le> pos" "pos < ?hi" by auto
  then have p: "pos \<in> region_set g reg" by (simp add: region_set_def)
  from a have s: "start s = pos"
    and rp: "relative_pos s = Some (of_int (pos - g_start g) / of_int (gene_length g))"
    by (auto simp add: annotate_def truediv_def split: if_splits)
  show "start s \<in> region_set g reg" using p s by simp
  then show "g_start g \<le> start s" and "start s < g_end g"
    using region_set_within_gene [OF assms(1), of reg] by auto
  show "relative_pos s = Some (of_int (start s - g_start g) / of_int (g_end g - g_start g))"
    using rp s by (simp add: gene_length_def)
qed

subsection \<open>Draws from empty sub-intervals\<close>




section \<open>Colocalization: the loops and the run\<close>

lemma assign_site_ids_map:
  "assign_site_ids tag df = map (\<lambda>i. (df ! i)\<lparr>site_id := Some (tag i)\<rparr>) [0 ..< length df]"
  by (rule nth_equalityI) (simp_all add: assign_site_ids_def)

lemma length_assign_site_ids [simp]: "length (assign_site_ids tag df) = length df"
  by (simp add: assign_site_ids_def)

lemma nth_assign_site_ids:
  "i < length df \<Longrightarrow> assign_site_ids tag df ! i = (df ! i)\<lparr>site_id := Some (tag i)\<rparr>"
  by (simp add: assign_site_ids_def)

lemma assign_site_ids_has_id:
  "row \<in> set (assign_site_ids tag df) \<Longrightarrow> site_id row \<noteq> None"
  by (auto simp add: assign_site_ids_map)

lemma center_site_id [simp]: "center (row\<lparr>site_id := x\<rparr>) = center row"
  by (simp add: center_def)

lemma pair_record_site_id [simp]:
  "pair_record pid mid (a\<lparr>site_id := x\<rparr>) (b\<lparr>site_id := y\<rparr>) = pair_record pid mid a b"
  by (simp add: pair_record_def)

lemma within_window_site_id [simp]:
  "within_window w (a\<lparr>site_id := x\<rparr>) (b\<lparr>site_id := y\<rparr>) = within_window w a b"
  by (simp add: within_window_def)

lemma within_window_sym:
  "within_window w a b \<longleftrightarrow> chrom a = chrom b \<and> \<bar>center a - center b\<bar> \<le> of_int w"
  by (auto simp add: within_window_def abs_minus_commute)

lemma append_pairs_closed:
  assumes "site_id psi_row = Some pid" and "\<forall>m \<in> set ms. site_id m \<noteq> None"
  shows "append_pairs psi_row ms acc =
           Inr (acc @ map (\<lambda>m. pair_record pid (the (site_id m)) psi_row m) ms)"
  using assms
proof (induction ms arbitrary: acc)
  case Nil
  then show ?case by simp
next
  case (Cons m ms)
  then obtain mid where "site_id m = Some mid" by auto
  with Cons show ?case by (simp add: make_pair_def)
qed

lemma scan_psi_closed:
  assumes "\<forall>a \<in> set A. site_id a \<noteq> None" and "\<forall>m \<in> set B. site_id m \<noteq> None"
  shows "scan_psi w A B acc = Inr (acc @ scanned_pairs w A B)"
  using assms(1)
proof (induction A arbitrary: acc)
  case Nil
  then show ?case by (simp add: scanned_pairs_def)
next
  case (Cons a A)
  then obtain pid where pid: "site_id a = Some pid" by auto
  have "\<forall>m \<in> set (nearby_m6a w a B). site_id m \<noteq> None"
    using assms(2) by (simp add: nearby_m6a_def)
  from append_pairs_closed [OF pid this] Cons pid show ?case
    by (simp add: scanned_pairs_def)
qed

lemma nearby_m6a_negative_window:
  assumes "w < 0"
  shows "nearby_m6a w a B = []"
proof -
  have "\<not> within_window w a m" for m
  proof -
    have "(of_int w :: rat) < 0" using assms by simp
    also have "0 \<le> \<bar>center m - center a\<bar>" by simp
    finally show ?thesis by (simp add: within_window_def)
  qed
  then show ?thesis by (simp add: nearby_m6a_def)
qed

lemma scanned_pairs_negative_window:
  assumes "w < 0"
  shows "scanned_pairs w A B = []"
  by (simp add: scanned_pairs_def nearby_m6a_negative_window [OF assms])

lemma concat_map_filter_product:
  "concat (map (\<lambda>x. map (f x) (filter (P x) ys)) xs) =
     map (\<lambda>(x, y). f x y) (filter (\<lambda>(x, y). P x y) (List.product xs ys))"
proof (induction xs)
  case Nil
  show ?case by simp
next
  case (Cons x xs)
  have "filter (\<lambda>(x, y). P x y) (map (Pair x) ys) = map (Pair x) (filter (P x) ys)"
    by (induction ys) simp_all
  with Cons show ?case by simp
qed

lemma scanned_pairs_assigned:
  "scanned_pairs w (assign_site_ids PSI A) (assign_site_ids M6A B) = spec_all_pairs w A B"
proof -
  have "scanned_pairs w (assign_site_ids PSI A) (assign_site_ids M6A B) =
        concat (map (\<lambda>i. map (\<lambda>j. pair_record (PSI i) (M6A j) (A ! i) (B ! j))
                  (filter (\<lambda>j. within_window w (A ! i) (B ! j)) [0 ..< length B]))
           [0 ..< length A])"
    by (simp add: scanned_pairs_def nearby_m6a_def assign_site_ids_map filter_map comp_def)
  also have "\<dots> = spec_all_pairs w A B"
    unfolding concat_map_filter_product spec_all_pairs_def within_window_sym ..
  finally show ?thesis .
qed

text \<open>The frames after the constructor.\<close>

lemma analyzer_init_frames:
  assumes "analyzer_init st psi m6a w = (st', a0)"
  shows "a0 = \<lparr>psi_df = psi, m6a_df = m6a, window = w,
                colocalized_sites = None, psi_only = None, m6a_only = None\<rparr>"
    and "st' m6a = assign_site_ids M6A (if psi = m6a then assign_site_ids PSI (st psi) else st m6a)"
    and "st' psi = (if psi = m6a then st' m6a else assign_site_ids PSI (st psi))"
    and "r \<noteq> psi \<Longrightarrow> r \<noteq> m6a \<Longrightarrow> st' r = st r"
  using assms by (auto simp add: analyzer_init_def Let_def)

lemma analyzer_init_has_ids:
  assumes "analyzer_init st psi m6a w = (st', a0)"
  shows "\<forall>a \<in> set (st' psi). site_id a \<noteq> None" and "\<forall>m \<in> set (st' m6a). site_id m \<noteq> None"
  using analyzer_init_frames(2,3) [OF assms] assign_site_ids_has_id
  by (metis)+

lemma rows_not_isin_closed:
  assumes "\<forall>row \<in> set df. site_id row \<noteq> None"
  shows "rows_not_isin ids df = Inr (filter (id_outside ids) df)"
  using assms
proof (induction df)
  case Nil
  show ?case by simp
next
  case (Cons row df)
  then obtain i where i: "site_id row = Some i" by auto
  then have "id_outside ids row \<longleftrightarrow> i \<notin> ids" by (auto simp add: id_outside_def)
  with Cons i show ?case by simp
qed

lemma colocalization_run_result:
  assumes "analyzer_init st psi m6a w = (st', a0)"
  defines "P \<equiv> scanned_pairs w (st' psi) (st' m6a)"
  defines "po \<equiv> filter (id_outside (set (map psi_id P))) (st' psi)"
  defines "mo \<equiv> filter (id_outside (set (map m6a_id P))) (st' m6a)"
  shows "colocalization_run st psi m6a w =
           Inr (st', \<lparr>psi_df = psi, m6a_df = m6a, window = w, colocalized_sites = Some P,
                      psi_only = Some po, m6a_only = Some mo\<rparr>,
                (length po, length mo, length (remdups (map psi_id P))))"
proof -
  note a0 = analyzer_init_frames(1) [OF assms(1)]
  note ids = analyzer_init_has_ids [OF assms(1)]
  have scan: "scan_psi w (st' psi) (st' m6a) [] = Inr P"
    using scan_psi_closed [OF ids, of w "[]"]
    by (simp add: P_def)
  have f: "find_colocalized_sites st' a0 = Inr (st', a0\<lparr>colocalized_sites := Some P\<rparr>, P)"
    by (simp add: find_colocalized_sites_def a0 scan)
  have c: "categorize_sites st' (a0\<lparr>colocalized_sites := Some P\<rparr>) =
             Inr (st', a0\<lparr>colocalized_sites := Some P, psi_only := Some po,
                          m6a_only := Some mo\<rparr>)"
    by (simp add: categorize_sites_def ensure_colocalized_def a0 po_def mo_def
        rows_not_isin_closed [OF ids(1)] rows_not_isin_closed [OF ids(2)])
  have g: "get_venn_counts st'
             (a0\<lparr>colocalized_sites := Some P, psi_only := Some po, m6a_only := Some mo\<rparr>) =
           Inr (st', a0\<lparr>colocalized_sites := Some P, psi_only := Some po,
                         m6a_only := Some mo\<rparr>,
                (length po, length mo, length (remdups (map psi_id P))))"
    by (simp add: get_venn_counts_def ensure_colocalized_def a0)
  show ?thesis
    unfolding colocalization_run_def assms(1) using f c g by (simp add: a0)
qed

lemma psi_id_pair_record [simp]: "psi_id (pair_record pid mid a b) = pid"
  and m6a_id_pair_record [simp]: "m6a_id (pair_record pid mid a b) = mid"
  by (simp_all add: pair_record_def)

lemma colocalization_run_distinct_frames:
  assumes "psi \<noteq> m6a"
  shows "\<exists>st' a po mo.
           colocalization_run st psi m6a w =
             Inr (st', a, (length po, length mo,
                           length (remdups (map psi_id (spec_all_pairs w (st psi) (st m6a))))))
         \<and> st' psi = assign_site_ids PSI (st psi)
         \<and> st' m6a = assign_site_ids M6A (st m6a)
         \<and> colocalized_sites a = Some (spec_all_pairs w (st psi) (st m6a))
         \<and> psi_only a = Some po \<and> m6a_only a = Some mo
         \<and> po = filter (id_outside (set (map psi_id (spec_all_pairs w (st psi) (st m6a)))))
                  (st' psi)
         \<and> mo = filter (id_outside (set (map m6a_id (spec_all_pairs w (st psi) (st m6a)))))
                  (st' m6a)"
proof -
  obtain st' a0 where i: "analyzer_init st psi m6a w = (st', a0)"
    by (cases "analyzer_init st psi m6a w")
  have A: "st' psi = assign_site_ids PSI (st psi)"
    and B: "st' m6a = assign_site_ids M6A (st m6a)"
    using analyzer_init_frames(2,3) [OF i] assms by simp_all
  have P: "scanned_pairs w (st' psi) (st' m6a) = spec_all_pairs w (st psi) (st m6a)"
    unfolding A B by (rule scanned_pairs_assigned)
  show ?thesis
    using colocalization_run_result [OF i] A B unfolding P by simp
qed





lemma example_store_frames:
  "example_store 0 = [bed_row ''chr1'' 1500]"
  "example_store 1 = [bed_row ''chr1'' 1550, bed_row ''chr1'' 1551, bed_row ''chr1'' 1530,
                      bed_row ''chr1'' 1510, bed_row ''chr2'' 1500]"
  by (simp_all add: example_store_def)



subsection \<open>Growing the window\<close>

lemma nearby_m6a_mono:
  assumes "w1 \<le> w2"
  shows "set (nearby_m6a w1 a B) \<subseteq> set (nearby_m6a w2 a B)"
proof -
  have "(of_int w1 :: rat) \<le> of_int w2" using assms by simp
  then have "within_window w1 a m \<Longrightarrow> within_window w2 a m" for m
    unfolding within_window_def by (meson order_trans)
  then show ?thesis by (auto simp add: nearby_m6a_def)
qed

lemma scanned_pairs_mono:
  assumes "w1 \<le> w2"
  shows "set (scanned_pairs w1 A B) \<subseteq> set (scanned_pairs w2 A B)"
  using nearby_m6a_mono [OF assms] unfolding scanned_pairs_def by fastforce

lemma analyzer_init_store_window:
  "fst (analyzer_init st psi m6a w1) = fst (analyzer_init st psi m6a w2)"
  by (simp add: analyzer_init_def Let_def)

lemma colocalization_run_pairs:
  "\<exists>a cnt. colocalization_run st psi m6a w = Inr (fst (analyzer_init st psi m6a w), a, cnt)
     \<and> colocalized_sites a =
         Some (scanned_pairs w (fst (analyzer_init st psi m6a w) psi)
                 (fst (analyzer_init st psi m6a w) m6a))"
proof -
  obtain st' a0 where i: "analyzer_init st psi m6a w = (st', a0)"
    by (cases "analyzer_init st psi m6a w")
  show ?thesis using colocalization_run_result [OF i] by (simp add: i)
qed

text \<open>
  Claim C9. For windows \<open>w1 < w2\<close> both runs return, and every pair record emitted with
  window \<open>w1\<close> is emitted with window \<open>w2\<close>.
\<close>

theorem pairs_monotone_in_window:
  assumes "w1 < w2"
  shows "\<exists>st1 a1 cnt1 pairs1 st2 a2 cnt2 pairs2.
           colocalization_run st psi m6a w1 = Inr (st1, a1, cnt1)
         \<and> colocalized_sites a1 = Some pairs1
         \<and> colocalization_run st psi m6a w2 = Inr (st2, a2, cnt2)
         \<and> colocalized_sites a2 = Some pairs2
         \<and> set pairs1 \<subseteq> set pairs2"
proof -
  have le: "w1 \<le> w2" using assms by simp
  from colocalization_run_pairs [of st psi m6a w1] colocalization_run_pairs [of st psi m6a w2]
    scanned_pairs_mono [OF le]
  show ?thesis
    unfolding analyzer_init_store_window [of st psi m6a w1 w2] by blast
qed

subsection \<open>Frames after the constructor\<close>

lemma assign_site_ids_same:
  "i < length df \<Longrightarrow> same_but_site_id (df ! i) (assign_site_ids tag df ! i)"
  by (simp add: nth_assign_site_ids same_but_site_id_def)

lemma same_but_site_id_trans:
  "same_but_site_id a b \<Longrightarrow> same_but_site_id b c \<Longrightarrow> same_but_site_id a c"
  by (simp add: same_but_site_id_def)

lemma analyzer_init_same:
  assumes "analyzer_init st psi m6a w = (st', a0)"
  shows "length (st' r) = length (st r)"
    and "i < length (st r) \<Longrightarrow> same_but_site_id (st r ! i) (st' r ! i)"
proof -
  note f = analyzer_init_frames [OF assms]
  show "length (st' r) = length (st r)"
    using f(2,3) f(4) [of r] by (cases "r = m6a"; cases "r = psi") auto
  show "same_but_site_id (st r ! i) (st' r ! i)" if i: "i < length (st r)"
  proof (cases "r = m6a")
    case True
    show ?thesis
    proof (cases "psi = m6a")
      case True
      with \<open>r = m6a\<close> f(2) i show ?thesis
        by (simp add: nth_assign_site_ids same_but_site_id_def)
    next
      case False
      with \<open>r = m6a\<close> f(2) i show ?thesis
        by (simp add: nth_assign_site_ids same_but_site_id_def)
    qed
  next
    case False
    show ?thesis
    proof (cases "r = psi")
      case True
      with False f(3) i show ?thesis
        by (auto simp add: nth_assign_site_ids same_but_site_id_def)
    next
      case psi: False
      with False f(4) [of r] show ?thesis by (simp add: same_but_site_id_def)
    qed
  qed
qed

lemma analyzer_init_ids:
  assumes "analyzer_init st psi m6a w = (st', a0)"
  shows "i < length (st m6a) \<Longrightarrow> site_id (st' m6a ! i) = Some (M6A i)"
    and "psi \<noteq> m6a \<Longrightarrow> i < length (st psi) \<Longrightarrow> site_id (st' psi ! i) = Some (PSI i)"
  using analyzer_init_frames(2,3) [OF assms] by (auto simp add: nth_assign_site_ids)

subsection \<open>Negative window\<close>

lemma id_outside_empty: "id_outside {} row"
  by (simp add: id_outside_def)

text \<open>
  Claim C7, as amended. With a negative window the run raises no error: it returns an
  empty pair table, every row of either frame is unmatched, and the counts are the two
  frame lengths and 0.
\<close>

theorem negative_window_no_pairs:
  assumes "w < 0"
  shows "\<exists>st' a. colocalization_run st psi m6a w
                   = Inr (st', a, (length (st psi), length (st m6a), 0))
         \<and> colocalized_sites a = Some []
         \<and> psi_only a = Some (st' psi) \<and> m6a_only a = Some (st' m6a)"
proof -
  obtain st' a0 where i: "analyzer_init st psi m6a w = (st', a0)"
    by (cases "analyzer_init st psi m6a w")
  have P: "scanned_pairs w (st' psi) (st' m6a) = []"
    by (rule scanned_pairs_negative_window [OF assms])
  show ?thesis
    using colocalization_run_result [OF i] analyzer_init_same(1) [OF i]
    unfolding P by (simp add: id_outside_empty)
qed

text \<open>
  Claim C7 as stated fails: with window \<open>-1\<close> the run on the example returns a result, an
  empty pair table and the counts \<open>(1, 5, 0)\<close>, and not an error.
\<close>

theorem negative_window_returns_example:
  "map_sum id (\<lambda>(st', a, cnt). (colocalized_sites a, cnt))
     (colocalization_run example_store 0 1 (- 1)) = Inr (Some [], (1, 5, 0))"
  by code_simp

theorem negative_window_no_pairs_witness:
  "(- 1 :: int) < 0
   \<and> (\<exists>st' a. colocalization_run example_store 0 1 (- 1) = Inr (st', a, (1, 5, 0))
         \<and> colocalized_sites a = Some [])"
proof -
  have n: "(- 1 :: int) < 0" by simp
  have l: "length (example_store 0) = 1" "length (example_store 1) = 5"
    unfolding example_store_frames by simp_all
  from negative_window_no_pairs [OF n, of example_store 0 1] n show ?thesis
    unfolding l by blast
qed

subsection \<open>Pair records\<close>

lemma scanned_pairs_member:
  assumes "p \<in> set (scanned_pairs w A B)"
  shows "\<exists>a \<in> set A. \<exists>m \<in> set B. within_window w a m
           \<and> p = pair_record (the (site_id a)) (the (site_id m)) a m"
  using assms by (auto simp add: scanned_pairs_def nearby_m6a_def)

lemma analyzer_init_row:
  assumes "analyzer_init st psi m6a w = (st', a0)" and "row' \<in> set (st' r)"
  shows "\<exists>row \<in> set (st r). same_but_site_id row row'"
proof -
  from assms(2) obtain i where i: "i < length (st' r)" "row' = st' r ! i"
    by (auto simp add: in_set_conv_nth)
  from i(1) analyzer_init_same(1) [OF assms(1), of r] have l: "i < length (st r)"
    by simp
  from analyzer_init_same(2) [OF assms(1) l] i(2) have "same_but_site_id (st r ! i) row'"
    by simp
  with l show ?thesis using nth_mem by blast
qed

lemma py_int_half:
  assumes "0 \<le> n"
  shows "py_int (of_int n / 2) = n div 2"
proof -
  have "(of_int n / 2 :: rat) = of_int n / of_int 2" by simp
  moreover have "(0::rat) \<le> of_int n / of_int 2" using assms by simp
  ultimately show ?thesis
    by (simp only: py_int_nonneg floor_divide_of_int_eq)
qed

lemma py_int_abs_le:
  assumes "\<bar>x\<bar> \<le> of_int w"
  shows "py_int \<bar>x\<bar> = \<lfloor>\<bar>x\<bar>\<rfloor>" and "0 \<le> py_int \<bar>x\<bar>" and "py_int \<bar>x\<bar> \<le> w"
proof -
  show f: "py_int \<bar>x\<bar> = \<lfloor>\<bar>x\<bar>\<rfloor>" by (simp add: py_int_def)
  show "0 \<le> py_int \<bar>x\<bar>" unfolding f by simp
  have "\<lfloor>\<bar>x\<bar>\<rfloor> \<le> \<lfloor>(of_int w :: rat)\<rfloor>" using assms by (rule floor_mono)
  then show "py_int \<bar>x\<bar> \<le> w" unfolding f by simp
qed

lemma pair_record_consistent:
  assumes "within_window w a m"
    and "same_but_site_id ra a" and "same_but_site_id rb m"
  shows "pair_chrom (pair_record pid mid a m) = chrom ra"
    and "pair_chrom (pair_record pid mid a m) = chrom rb"
    and "psi_pos (pair_record pid mid a m) = py_int (of_int (start ra + endp ra) / 2)"
    and "m6a_pos (pair_record pid mid a m) = py_int (of_int (start rb + endp rb) / 2)"
    and "distance (pair_record pid mid a m) =
           py_int \<bar>of_int (start ra + endp ra) / 2 - of_int (start rb + endp rb) / 2\<bar>"
    and "distance (pair_record pid mid a m) =
           \<lfloor>\<bar>of_int (start ra + endp ra) / 2 - of_int (start rb + endp rb) / 2 :: rat\<bar>\<rfloor>"
    and "0 \<le> distance (pair_record pid mid a m)"
    and "distance (pair_record pid mid a m) \<le> w"
proof -
  have ca: "center a = of_int (start ra + endp ra) / 2"
    and cb: "center m = of_int (start rb + endp rb) / 2"
    and ch: "chrom a = chrom ra" "chrom m = chrom rb"
    using assms(2,3) by (simp_all add: same_but_site_id_def center_def)
  from assms(1) have same: "chrom m = chrom a" and le: "\<bar>center a - center m\<bar> \<le> of_int w"
    by (simp_all add: within_window_def abs_minus_commute)
  note d = py_int_abs_le [OF le]
  show "pair_chrom (pair_record pid mid a m) = chrom ra"
    and "pair_chrom (pair_record pid mid a m) = chrom rb"
    using ch same by (simp_all add: pair_record_def)
  show "psi_pos (pair_record pid mid a m) = py_int (of_int (start ra + endp ra) / 2)"
    and "m6a_pos (pair_record pid mid a m) = py_int (of_int (start rb + endp rb) / 2)"
    by (simp_all add: pair_record_def ca cb)
  show "distance (pair_record pid mid a m) =
           py_int \<bar>of_int (start ra + endp ra) / 2 - of_int (start rb + endp rb) / 2\<bar>"
    by (simp add: pair_record_def ca cb)
  show "distance (pair_record pid mid a m) =
           \<lfloor>\<bar>of_int (start ra + endp ra) / 2 - of_int (start rb + endp rb) / 2 :: rat\<bar>\<rfloor>"
    using d(1) by (simp add: pair_record_def ca cb)
  show "0 \<le> distance (pair_record pid mid a m)"
    and "distance (pair_record pid mid a m) \<le> w"
    using d(2,3) by (simp_all add: pair_record_def)
qed

subsection \<open>Counts\<close>

lemma id_outside_pairs:
  "id_outside (set (map f pairs)) row \<longleftrightarrow> \<not> (\<exists>p \<in> set pairs. site_id row = Some (f p))"
  by (auto simp add: id_outside_def)

lemma spec_all_pairs_psi_ids:
  "set (map psi_id (spec_all_pairs w A B)) =
     PSI ` {i. i < length A \<and> (\<exists>j < length B. chrom (A ! i) = chrom (B ! j)
                \<and> \<bar>center (A ! i) - center (B ! j)\<bar> \<le> of_int w)}"
  by (auto simp add: spec_all_pairs_def image_iff) force

lemma card_matched:
  "card {i. i < n \<and> M i} = length (filter M [0 ..< n])"
proof -
  have e: "{i. i < n \<and> M i} = set (filter M [0 ..< n])" by auto
  show ?thesis unfolding e by (rule distinct_card) simp
qed

lemma matched_plus_unmatched:
  "length (filter M [0 ..< n]) + length (filter (\<lambda>i. \<not> M i) [0 ..< n]) = n"
  using sum_length_filter_compl [of M "[0 ..< n]"] by simp

lemma overlap_count_matched:
  "length (remdups (map psi_id (spec_all_pairs w A B))) =
     length (filter (\<lambda>i. \<exists>j < length B. chrom (A ! i) = chrom (B ! j)
                \<and> \<bar>center (A ! i) - center (B ! j)\<bar> \<le> of_int w) [0 ..< length A])"
proof -
  have "inj PSI" by (simp add: inj_on_def)
  then have "card (PSI ` S) = card S" for S
    by (meson card_image inj_on_subset subset_UNIV)
  then show ?thesis
    unfolding length_remdups_card_conv spec_all_pairs_psi_ids card_matched [symmetric] .
qed

lemma psi_only_unmatched:
  "length (filter (id_outside (set (map psi_id (spec_all_pairs w A B)))) (assign_site_ids PSI A)) =
     length (filter (\<lambda>i. \<not> (\<exists>j < length B. chrom (A ! i) = chrom (B ! j)
                \<and> \<bar>center (A ! i) - center (B ! j)\<bar> \<le> of_int w)) [0 ..< length A])"
proof -
  have "filter (id_outside (set (map psi_id (spec_all_pairs w A B)))) (assign_site_ids PSI A) =
        map (\<lambda>i. (A ! i)\<lparr>site_id := Some (PSI i)\<rparr>)
          (filter (\<lambda>i. \<not> (\<exists>j < length B. chrom (A ! i) = chrom (B ! j)
                \<and> \<bar>center (A ! i) - center (B ! j)\<bar> \<le> of_int w)) [0 ..< length A])"
    unfolding assign_site_ids_map filter_map spec_all_pairs_psi_ids
    by (rule arg_cong [where f = "map _"], rule filter_cong)
       (auto simp add: id_outside_def)
  then show ?thesis by simp
qed

text \<open>
  Claim C3, as amended. For two distinct frames the run returns the counts
  \<open>(size(unmatched_a), size(unmatched_b), overlap)\<close>, where a row is unmatched iff its
  identifier occurs in no emitted pair, each unmatched frame is the complement of the
  matched rows within its own frame, and \<open>overlap\<close> is the number of distinct \<open>\<Psi>\<close> rows
  that occur in a pair: the \<open>\<Psi>\<close> frame's size less \<open>size(unmatched_a)\<close>, which is at most
  the number of pairs.
\<close>

theorem venn_counts:
  assumes "psi \<noteq> m6a"
  shows "\<exists>st' a pairs po mo overlap.
           colocalization_run st psi m6a w = Inr (st', a, (length po, length mo, overlap))
         \<and> colocalized_sites a = Some pairs
         \<and> psi_only a = Some po \<and> m6a_only a = Some mo
         \<and> po = filter (\<lambda>row. \<not> (\<exists>p \<in> set pairs. site_id row = Some (psi_id p))) (st' psi)
         \<and> mo = filter (\<lambda>row. \<not> (\<exists>p \<in> set pairs. site_id row = Some (m6a_id p))) (st' m6a)
         \<and> overlap = card (psi_id ` set pairs)
         \<and> overlap + length po = length (st psi)
         \<and> overlap \<le> length pairs"
proof -
  let ?P = "spec_all_pairs w (st psi) (st m6a)"
  from colocalization_run_distinct_frames [OF assms, of st w]
  obtain st' a po mo where
    r: "colocalization_run st psi m6a w =
          Inr (st', a, (length po, length mo, length (remdups (map psi_id ?P))))"
    and A: "st' psi = assign_site_ids PSI (st psi)"
    and c: "colocalized_sites a = Some ?P"
    and o: "psi_only a = Some po" "m6a_only a = Some mo"
    and po: "po = filter (id_outside (set (map psi_id ?P))) (st' psi)"
    and mo: "mo = filter (id_outside (set (map m6a_id ?P))) (st' m6a)"
    by blast
  have po': "po = filter (\<lambda>row. \<not> (\<exists>p \<in> set ?P. site_id row = Some (psi_id p))) (st' psi)"
    unfolding po by (rule filter_cong) (rule refl, rule id_outside_pairs)
  have mo': "mo = filter (\<lambda>row. \<not> (\<exists>p \<in> set ?P. site_id row = Some (m6a_id p))) (st' m6a)"
    unfolding mo by (rule filter_cong) (rule refl, rule id_outside_pairs)
  have card: "length (remdups (map psi_id ?P)) = card (psi_id ` set ?P)"
    by (simp add: length_remdups_card_conv)
  have sum: "length (remdups (map psi_id ?P)) + length po = length (st psi)"
    unfolding po A overlap_count_matched psi_only_unmatched
    by (rule matched_plus_unmatched)
  have le: "length (remdups (map psi_id ?P)) \<le> length ?P"
    using length_remdups_leq [of "map psi_id ?P"] by simp
  from r c o po' mo' card sum le show ?thesis
    by - (intro exI conjI; assumption)
qed

text \<open>
  Claim C3 as stated fails: on the example the run emits three pairs, all with the same
  \<open>\<Psi>\<close> row, and the third count is 1.
\<close>

theorem venn_counts_example:
  "map_sum id (\<lambda>(st', a, cnt). (map_option length (colocalized_sites a), cnt))
     (colocalization_run example_store 0 1 50) = Inr (Some 3, (0, 2, 1))"
  by code_simp

theorem venn_counts_witness:
  "(0::nat) \<noteq> 1
   \<and> (\<exists>st' a pairs po mo overlap.
         colocalization_run example_store 0 1 50 = Inr (st', a, (length po, length mo, overlap))
       \<and> colocalized_sites a = Some pairs \<and> psi_only a = Some po \<and> m6a_only a = Some mo
       \<and> overlap + length po = 1 \<and> overlap \<le> length pairs)"
proof -
  have n: "(0::nat) \<noteq> 1" by simp
  have l: "length (example_store 0) = 1" unfolding example_store_frames by simp
  from venn_counts [OF n, of example_store 50] obtain st' a pairs po mo overlap where
    "colocalization_run example_store 0 1 50 = Inr (st', a, (length po, length mo, overlap))"
    "colocalized_sites a = Some pairs" "psi_only a = Some po" "m6a_only a = Some mo"
    "overlap + length po = 1" "overlap \<le> length pairs"
    unfolding l by blast
  then have "\<exists>st' a pairs po mo overlap.
         colocalization_run example_store 0 1 50 = Inr (st', a, (length po, length mo, overlap))
       \<and> colocalized_sites a = Some pairs \<and> psi_only a = Some po \<and> m6a_only a = Some mo
       \<and> overlap + length po = 1 \<and> overlap \<le> length pairs"
    by - (intro exI conjI; assumption)
  with n show ?thesis by - (intro conjI; assumption)
qed

subsection \<open>The example store\<close>

lemma example_run_lengths:
  "map_sum id (\<lambda>(st', a, cnt). map_option length (colocalized_sites a))
     (colocalization_run example_store 0 1 30) = Inr (Some 2)"
  "map_sum id (\<lambda>(st', a, cnt). map_option length (colocalized_sites a))
     (colocalization_run example_store 0 1 50) = Inr (Some 3)"
  by code_simp+

theorem pairs_monotone_in_window_witness:
  "(30::int) < 50
   \<and> (\<exists>st1 a1 cnt1 pairs1 st2 a2 cnt2 pairs2.
         colocalization_run example_store 0 1 30 = Inr (st1, a1, cnt1)
       \<and> colocalized_sites a1 = Some pairs1
       \<and> colocalization_run example_store 0 1 50 = Inr (st2, a2, cnt2)
       \<and> colocalized_sites a2 = Some pairs2
       \<and> set pairs1 \<subseteq> set pairs2 \<and> length pairs1 = 2 \<and> length pairs2 = 3)"
proof -
  have n: "(30::int) < 50" by simp
  from pairs_monotone_in_window [OF n, of example_store 0 1]
  obtain st1 a1 cnt1 pairs1 st2 a2 cnt2 pairs2 where
    r: "colocalization_run example_store 0 1 30 = Inr (st1, a1, cnt1)"
      "colocalized_sites a1 = Some pairs1"
      "colocalization_run example_store 0 1 50 = Inr (st2, a2, cnt2)"
      "colocalized_sites a2 = Some pairs2"
      "set pairs1 \<subseteq> set pairs2"
    by blast
  from example_run_lengths r(1-4) have "length pairs1 = 2" "length pairs2 = 3"
    by simp_all
  with r have "\<exists>st1 a1 cnt1 pairs1 st2 a2 cnt2 pairs2.
         colocalization_run example_store 0 1 30 = Inr (st1, a1, cnt1)
       \<and> colocalized_sites a1 = Some pairs1
       \<and> colocalization_run example_store 0 1 50 = Inr (st2, a2, cnt2)
       \<and> colocalized_sites a2 = Some pairs2
       \<and> set pairs1 \<subseteq> set pairs2 \<and> length pairs1 = 2 \<and> length pairs2 = 3"
    by - (intro exI conjI; assumption)
  with n show ?thesis by - (intro conjI; assumption)
qed

section \<open>The scan of \<^verbatim>\<open>RealDataAnalyzer\<close>\<close>

text \<open>
  The second scan also pairs every \<open>\<Psi>\<close> row with every m6A row of the same standardised
  chromosome whose centre is at most the window away in whatever order the chromosomes
  are visited, and its counter is the number of these combinations.
\<close>

lemma write_columns_frames:
  "real_psi_df (write_columns a) = map written_psi (real_psi_df a)"
  "real_m6a_df (write_columns a) = map written_m6a (real_m6a_df a)"
  by (simp_all add: write_columns_def Let_def written_psi_def written_m6a_def comp_def)

lemma write_columns_eq:
  "write_columns a =
     a\<lparr>real_psi_df := map written_psi (real_psi_df a),
       real_m6a_df := map written_m6a (real_m6a_df a)\<rparr>"
  by (simp add: write_columns_def Let_def written_psi_def written_m6a_def comp_def)

lemma nearby_peaks_written:
  "nearby_peaks w p (map written_m6a ms) =
     Inr (map written_m6a (filter (\<lambda>m. \<bar>peak_pos m - p\<bar> \<le> w) ms))"
  by (induction ms) (simp_all add: written_m6a_def)

lemma append_real_pairs_written:
  "append_real_pairs c p (map written_m6a ms) acc =
     Inr (acc @ map (\<lambda>m. \<lparr>rp_chrom = c, rp_psi_pos = p, rp_m6a_pos = peak_pos m,
                           rp_distance = \<bar>p - peak_pos m\<bar>\<rparr>) ms)"
  by (induction ms arbitrary: acc) (simp_all add: written_m6a_def)

lemma scan_chrom_written:
  "scan_chrom w c (map written_psi ps) (map written_m6a ms) (n, pairs) =
     Inr (n + length (chrom_pairs w c ps ms), pairs @ chrom_pairs w c ps ms)"
proof (induction ps arbitrary: n pairs)
  case Nil
  show ?case by (simp add: chrom_pairs_def)
next
  case (Cons p ps)
  have c: "rd_center (written_psi p) = Some (psi_center p)"
    by (simp add: written_psi_def psi_center_def)
  have k: "chrom_pairs w c (p # ps) ms =
             map (\<lambda>m. \<lparr>rp_chrom = c, rp_psi_pos = psi_center p, rp_m6a_pos = peak_pos m,
                        rp_distance = \<bar>psi_center p - peak_pos m\<bar>\<rparr>)
               (filter (\<lambda>m. \<bar>peak_pos m - psi_center p\<bar> \<le> w) ms)
             @ chrom_pairs w c ps ms"
    by (simp add: chrom_pairs_def)
  show ?case
    by (simp add: c nearby_peaks_written append_real_pairs_written Cons.IH k)
qed

lemma filter_written:
  "filter (\<lambda>r. rd_chrom_std r = Some c) (map written_psi psi) =
     map written_psi (filter (\<lambda>r. remove_chr (rd_chrom r) = c) psi)"
  "filter (\<lambda>r. rm_chrom_std r = Some c) (map written_m6a m6a) =
     map written_m6a (filter (\<lambda>r. remove_chr (rm_chrom r) = c) m6a)"
  by (simp_all add: filter_map comp_def written_psi_def written_m6a_def)

lemma scan_chroms_written:
  "scan_chroms w cs (map written_psi psi) (map written_m6a m6a) (n, pairs) =
     Inr (n + length (all_chrom_pairs w cs psi m6a), pairs @ all_chrom_pairs w cs psi m6a)"
proof (induction cs arbitrary: n pairs)
  case Nil
  show ?case by (simp add: all_chrom_pairs_def)
next
  case (Cons c cs)
  have k: "all_chrom_pairs w (c # cs) psi m6a =
             chrom_pairs w c (filter (\<lambda>r. remove_chr (rd_chrom r) = c) psi)
               (filter (\<lambda>r. remove_chr (rm_chrom r) = c) m6a)
             @ all_chrom_pairs w cs psi m6a"
    by (simp add: all_chrom_pairs_def)
  show ?case
    by (simp add: filter_written scan_chrom_written Cons.IH k)
qed

text \<open>The method raises no error, whatever the frames and the order of the chromosomes.\<close>

lemma colocalization_analysis_result:
  "colocalization_analysis w chroms a =
     Inr (write_columns a,
          (length (all_chrom_pairs w chroms (real_psi_df a) (real_m6a_df a)),
           length (real_psi_df a), length (real_m6a_df a)),
          all_chrom_pairs w chroms (real_psi_df a) (real_m6a_df a))"
  by (simp add: colocalization_analysis_def Let_def write_columns_frames scan_chroms_written)

lemma chrom_pairs_set:
  "set (chrom_pairs w c (filter (\<lambda>r. remove_chr (rd_chrom r) = c) psi)
          (filter (\<lambda>r. remove_chr (rm_chrom r) = c) m6a)) =
     {real_pair_of a b | a b. a \<in> set psi \<and> b \<in> set m6a \<and> remove_chr (rd_chrom a) = c
        \<and> remove_chr (rm_chrom b) = c \<and> \<bar>psi_center a - peak_pos b\<bar> \<le> w}"
  by (auto simp add: chrom_pairs_def real_pair_of_def abs_minus_commute)

lemma all_chrom_pairs_set:
  "set (all_chrom_pairs w cs psi m6a) =
     {real_pair_of a b | a b. a \<in> set psi \<and> b \<in> set m6a \<and> remove_chr (rd_chrom a) \<in> set cs
        \<and> remove_chr (rm_chrom b) = remove_chr (rd_chrom a) \<and> \<bar>psi_center a - peak_pos b\<bar> \<le> w}"
proof -
  have "set (all_chrom_pairs w cs psi m6a) =
          (\<Union>c \<in> set cs. set (chrom_pairs w c (filter (\<lambda>r. remove_chr (rd_chrom r) = c) psi)
                                 (filter (\<lambda>r. remove_chr (rm_chrom r) = c) m6a)))"
    by (simp add: all_chrom_pairs_def)
  then show ?thesis unfolding chrom_pairs_set by auto
qed

lemma colocalization_analysis_pairs:
  assumes "set chroms = (remove_chr \<circ> rd_chrom) ` set (real_psi_df a)
                          \<inter> (remove_chr \<circ> rm_chrom) ` set (real_m6a_df a)"
  shows "\<exists>a' counts pairs.
           colocalization_analysis w chroms a = Inr (a', counts, pairs)
         \<and> set pairs =
             {real_pair_of x y | x y. x \<in> set (real_psi_df a) \<and> y \<in> set (real_m6a_df a)
                \<and> remove_chr (rd_chrom x) = remove_chr (rm_chrom y)
                \<and> \<bar>psi_center x - peak_pos y\<bar> \<le> w}
         \<and> fst counts = length pairs"
proof -
  have "set (all_chrom_pairs w chroms (real_psi_df a) (real_m6a_df a)) =
          {real_pair_of x y | x y. x \<in> set (real_psi_df a) \<and> y \<in> set (real_m6a_df a)
             \<and> remove_chr (rd_chrom x) = remove_chr (rm_chrom y)
             \<and> \<bar>psi_center x - peak_pos y\<bar> \<le> w}"
    unfolding all_chrom_pairs_set assms by force
  then show ?thesis by (simp add: colocalization_analysis_result)
qed

lemma sum_list_if_distinct:
  "distinct cs \<Longrightarrow> (\<Sum>c\<leftarrow>cs. if k = c then (g::nat) else 0) = (if k \<in> set cs then g else 0)"
  by (induction cs) auto

lemma sum_list_swap:
  "(\<Sum>x\<leftarrow>xs. \<Sum>y\<leftarrow>ys. (f x y :: nat)) = (\<Sum>y\<leftarrow>ys. \<Sum>x\<leftarrow>xs. f x y)"
  by (induction xs) (simp_all add: sum_list_addf)

lemma length_filter_product:
  "length (filter P (List.product xs ys)) = (\<Sum>x\<leftarrow>xs. length (filter (\<lambda>y. P (x, y)) ys))"
proof (induction xs)
  case Nil
  show ?case by simp
next
  case (Cons x xs)
  have "length (filter P (map (Pair x) ys)) = length (filter (\<lambda>y. P (x, y)) ys)"
    by (simp add: filter_map comp_def)
  with Cons show ?case by simp
qed

lemma chrom_pairs_length:
  "length (chrom_pairs w c (filter (\<lambda>r. remove_chr (rd_chrom r) = c) psi)
             (filter (\<lambda>r. remove_chr (rm_chrom r) = c) m6a)) =
     (\<Sum>p\<leftarrow>psi. if remove_chr (rd_chrom p) = c
        then length (filter (\<lambda>m. remove_chr (rm_chrom m) = remove_chr (rd_chrom p)
                               \<and> \<bar>psi_center p - peak_pos m\<bar> \<le> w) m6a)
        else 0)"
  by (induction psi)
     (simp_all add: chrom_pairs_def abs_minus_commute conj_commute)

lemma all_chrom_pairs_length:
  "length (all_chrom_pairs w cs psi m6a) =
     (\<Sum>c\<leftarrow>cs. \<Sum>p\<leftarrow>psi.
        if remove_chr (rd_chrom p) = c
        then length (filter (\<lambda>m. remove_chr (rm_chrom m) = remove_chr (rd_chrom p)
                               \<and> \<bar>psi_center p - peak_pos m\<bar> \<le> w) m6a)
        else 0)"
proof (induction cs)
  case Nil
  show ?case by (simp add: all_chrom_pairs_def)
next
  case (Cons c cs)
  have "all_chrom_pairs w (c # cs) psi m6a =
             chrom_pairs w c (filter (\<lambda>r. remove_chr (rd_chrom r) = c) psi)
               (filter (\<lambda>r. remove_chr (rm_chrom r) = c) m6a)
             @ all_chrom_pairs w cs psi m6a"
    by (simp add: all_chrom_pairs_def)
  then show ?case by (simp add: chrom_pairs_length Cons.IH)
qed

lemma colocalization_analysis_count:
  assumes "distinct chroms"
    and "set chroms = (remove_chr \<circ> rd_chrom) ` set (real_psi_df a)
                        \<inter> (remove_chr \<circ> rm_chrom) ` set (real_m6a_df a)"
  shows "\<exists>a' n n_psi n_m6a pairs.
           colocalization_analysis w chroms a = Inr (a', (n, n_psi, n_m6a), pairs)
         \<and> n = length (filter (\<lambda>(x, y). remove_chr (rd_chrom x) = remove_chr (rm_chrom y)
                                  \<and> \<bar>psi_center x - peak_pos y\<bar> \<le> w)
                         (List.product (real_psi_df a) (real_m6a_df a)))
         \<and> n = length pairs"
proof -
  let ?psi = "real_psi_df a" and ?m6a = "real_m6a_df a"
  let ?g = "\<lambda>p. length (filter (\<lambda>m. remove_chr (rm_chrom m) = remove_chr (rd_chrom p)
                                   \<and> \<bar>psi_center p - peak_pos m\<bar> \<le> w) ?m6a)"
  have "length (all_chrom_pairs w chroms ?psi ?m6a) =
          (\<Sum>c\<leftarrow>chroms. \<Sum>p\<leftarrow>?psi. if remove_chr (rd_chrom p) = c then ?g p else 0)"
    by (rule all_chrom_pairs_length)
  also have "\<dots> = (\<Sum>p\<leftarrow>?psi. \<Sum>c\<leftarrow>chroms. if remove_chr (rd_chrom p) = c then ?g p else 0)"
    by (rule sum_list_swap)
  also have "\<dots> = (\<Sum>p\<leftarrow>?psi. if remove_chr (rd_chrom p) \<in> set chroms then ?g p else 0)"
    by (simp only: sum_list_if_distinct [OF assms(1)])
  also have "\<dots> = (\<Sum>p\<leftarrow>?psi. ?g p)"
  proof (rule arg_cong [where f = sum_list], rule map_cong [OF refl])
    fix p assume p: "p \<in> set ?psi"
    show "(if remove_chr (rd_chrom p) \<in> set chroms then ?g p else 0) = ?g p"
    proof (cases "remove_chr (rd_chrom p) \<in> set chroms")
      case True
      then show ?thesis by simp
    next
      case False
      with p have "\<forall>m \<in> set ?m6a. remove_chr (rm_chrom m) \<noteq> remove_chr (rd_chrom p)"
        unfolding assms(2) by force
      then have "?g p = 0" by (simp add: filter_empty_conv)
      with False show ?thesis by simp
    qed
  qed
  also have "\<dots> = length (filter (\<lambda>(x, y). remove_chr (rd_chrom x) = remove_chr (rm_chrom y)
                              \<and> \<bar>psi_center x - peak_pos y\<bar> \<le> w)
                     (List.product ?psi ?m6a))"
    unfolding length_filter_product by (simp add: eq_commute [of "remove_chr (rm_chrom _)"])
  finally show ?thesis by (simp add: colocalization_analysis_result)
qed


section \<open>Both matchers: what is written, and what a pair record holds\<close>

subsection \<open>The frames after a run\<close>

lemma written_rows:
  "same_but_columns_psi r (written_psi r)"
  "rd_chrom_std (written_psi r) = Some (remove_chr (rd_chrom r))"
  "rd_center (written_psi r) = Some ((rd_start r + rd_end r) div 2)"
  "same_but_columns_m6a m (written_m6a m)"
  "rm_chrom_std (written_m6a m) = Some (remove_chr (rm_chrom m))"
  "rm_center (written_m6a m) = Some (peak_pos m)"
  by (simp_all add: written_psi_def written_m6a_def same_but_columns_psi_def
      same_but_columns_m6a_def)

text \<open>
  Claim C6, as amended. Either matcher writes derived columns into its frames in place
  and changes nothing else. For \<^verbatim>\<open>ColocalizationAnalyzer\<close> the run returns; the store
  after it is the store the constructor left, so the later methods write no frame; every
  frame keeps its length and every row keeps all its columns other than \<^verbatim>\<open>site_id\<close>;
  frames other than the two inputs are untouched; and the constructor writes the column
  \<^verbatim>\<open>site_id\<close> of the two input frames: \<open>M6A i\<close> in row \<open>i\<close> of the m6A frame and, when the
  frames are distinct, \<open>PSI i\<close> in row \<open>i\<close> of the \<open>\<Psi>\<close> frame. For \<^verbatim>\<open>RealDataAnalyzer\<close> the
  method returns; the frames after it are those the four column assignments left; both
  frames keep their length and every row keeps all its columns other than \<^verbatim>\<open>chrom_std\<close>
  and \<^verbatim>\<open>center\<close>, which hold the chromosome name without \<^verbatim>\<open>chr\<close> and the floor of the
  midpoint of a \<open>\<Psi>\<close> row or the peak of an m6A row.
\<close>

theorem matchers_write_only_derived_columns:
  "(\<exists>st' a cnt.
      colocalization_run st psi m6a w = Inr (st', a, cnt)
    \<and> st' = fst (analyzer_init st psi m6a w)
    \<and> (\<forall>r. length (st' r) = length (st r)
           \<and> (\<forall>i < length (st r). same_but_site_id (st r ! i) (st' r ! i)))
    \<and> (\<forall>r. r \<noteq> psi \<and> r \<noteq> m6a \<longrightarrow> st' r = st r)
    \<and> (\<forall>i < length (st m6a). site_id (st' m6a ! i) = Some (M6A i))
    \<and> (psi \<noteq> m6a \<longrightarrow> (\<forall>i < length (st psi). site_id (st' psi ! i) = Some (PSI i))))
   \<and> (\<exists>ra' counts rpairs.
      colocalization_analysis w chroms ra = Inr (ra', counts, rpairs)
    \<and> ra' = write_columns ra
    \<and> length (real_psi_df ra') = length (real_psi_df ra)
    \<and> length (real_m6a_df ra') = length (real_m6a_df ra)
    \<and> (\<forall>i < length (real_psi_df ra).
          same_but_columns_psi (real_psi_df ra ! i) (real_psi_df ra' ! i)
        \<and> rd_chrom_std (real_psi_df ra' ! i) = Some (remove_chr (rd_chrom (real_psi_df ra ! i)))
        \<and> rd_center (real_psi_df ra' ! i)
            = Some ((rd_start (real_psi_df ra ! i) + rd_end (real_psi_df ra ! i)) div 2))
    \<and> (\<forall>j < length (real_m6a_df ra).
          same_but_columns_m6a (real_m6a_df ra ! j) (real_m6a_df ra' ! j)
        \<and> rm_chrom_std (real_m6a_df ra' ! j) = Some (remove_chr (rm_chrom (real_m6a_df ra ! j)))
        \<and> rm_center (real_m6a_df ra' ! j) = Some (peak_pos (real_m6a_df ra ! j))))"
proof (rule conjI)
  obtain st' a0 where i: "analyzer_init st psi m6a w = (st', a0)"
    by (cases "analyzer_init st psi m6a w")
  from colocalization_run_result [OF i] obtain a cnt where
    r: "colocalization_run st psi m6a w = Inr (st', a, cnt)" by blast
  have s: "st' = fst (analyzer_init st psi m6a w)" by (simp add: i)
  show "\<exists>st' a cnt.
      colocalization_run st psi m6a w = Inr (st', a, cnt)
    \<and> st' = fst (analyzer_init st psi m6a w)
    \<and> (\<forall>r. length (st' r) = length (st r)
           \<and> (\<forall>i < length (st r). same_but_site_id (st r ! i) (st' r ! i)))
    \<and> (\<forall>r. r \<noteq> psi \<and> r \<noteq> m6a \<longrightarrow> st' r = st r)
    \<and> (\<forall>i < length (st m6a). site_id (st' m6a ! i) = Some (M6A i))
    \<and> (psi \<noteq> m6a \<longrightarrow> (\<forall>i < length (st psi). site_id (st' psi ! i) = Some (PSI i)))"
    using r s analyzer_init_same [OF i] analyzer_init_frames(4) [OF i] analyzer_init_ids [OF i]
    by - (intro exI conjI allI impI; (assumption | blast))
next
  let ?ra' = "write_columns ra"
  have r: "colocalization_analysis w chroms ra =
             Inr (?ra', (length (all_chrom_pairs w chroms (real_psi_df ra) (real_m6a_df ra)),
                         length (real_psi_df ra), length (real_m6a_df ra)),
                  all_chrom_pairs w chroms (real_psi_df ra) (real_m6a_df ra))"
    by (rule colocalization_analysis_result)
  have p: "\<forall>i < length (real_psi_df ra).
          same_but_columns_psi (real_psi_df ra ! i) (real_psi_df ?ra' ! i)
        \<and> rd_chrom_std (real_psi_df ?ra' ! i) = Some (remove_chr (rd_chrom (real_psi_df ra ! i)))
        \<and> rd_center (real_psi_df ?ra' ! i)
            = Some ((rd_start (real_psi_df ra ! i) + rd_end (real_psi_df ra ! i)) div 2)"
    by (simp add: write_columns_frames written_rows)
  have m: "\<forall>j < length (real_m6a_df ra).
          same_but_columns_m6a (real_m6a_df ra ! j) (real_m6a_df ?ra' ! j)
        \<and> rm_chrom_std (real_m6a_df ?ra' ! j) = Some (remove_chr (rm_chrom (real_m6a_df ra ! j)))
        \<and> rm_center (real_m6a_df ?ra' ! j) = Some (peak_pos (real_m6a_df ra ! j))"
    by (simp add: write_columns_frames written_rows)
  have l: "length (real_psi_df ?ra') = length (real_psi_df ra)"
    "length (real_m6a_df ?ra') = length (real_m6a_df ra)"
    by (simp_all add: write_columns_frames)
  show "\<exists>ra' counts rpairs.
      colocalization_analysis w chroms ra = Inr (ra', counts, rpairs)
    \<and> ra' = write_columns ra
    \<and> length (real_psi_df ra') = length (real_psi_df ra)
    \<and> length (real_m6a_df ra') = length (real_m6a_df ra)
    \<and> (\<forall>i < length (real_psi_df ra).
          same_but_columns_psi (real_psi_df ra ! i) (real_psi_df ra' ! i)
        \<and> rd_chrom_std (real_psi_df ra' ! i) = Some (remove_chr (rd_chrom (real_psi_df ra ! i)))
        \<and> rd_center (real_psi_df ra' ! i)
            = Some ((rd_start (real_psi_df ra ! i) + rd_end (real_psi_df ra ! i)) div 2))
    \<and> (\<forall>j < length (real_m6a_df ra).
          same_but_columns_m6a (real_m6a_df ra ! j) (real_m6a_df ra' ! j)
        \<and> rm_chrom_std (real_m6a_df ra' ! j) = Some (remove_chr (rm_chrom (real_m6a_df ra ! j)))
        \<and> rm_center (real_m6a_df ra' ! j) = Some (peak_pos (real_m6a_df ra ! j)))"
    using r l p m by - (intro exI conjI; (assumption | rule refl))
qed

text \<open>
  Claim C6 as stated fails: the \<open>\<Psi>\<close> row of the example has no \<^verbatim>\<open>site_id\<close> before the run
  and \<open>PSI 0\<close> after it; when the frame already carries identifiers (here from an analyzer
  built with the two frames exchanged) the run overwrites them; and the \<open>\<Psi>\<close> row of the
  second matcher has no \<^verbatim>\<open>chrom_std\<close> and no \<^verbatim>\<open>center\<close> before the scan and has both after
  it.
\<close>

theorem run_overwrites_site_id_example:
  "map site_id (example_store 0) = [None]
   \<and> map_sum id (\<lambda>(st', a, cnt). map site_id (st' 0)) (colocalization_run example_store 0 1 50)
       = Inr [Some (PSI 0)]
   \<and> map site_id (fst (analyzer_init example_store 1 0 50) 0) = [Some (M6A 0)]
   \<and> map_sum id (\<lambda>(st', a, cnt). map site_id (st' 0))
        (colocalization_run (fst (analyzer_init example_store 1 0 50)) 0 1 50)
       = Inr [Some (PSI 0)]
   \<and> map (\<lambda>r. (rd_chrom_std r, rd_center r)) (real_psi_df example_real) = [(None, None)]
   \<and> map_sum id (\<lambda>(ra', counts, rpairs). map (\<lambda>r. (rd_chrom_std r, rd_center r)) (real_psi_df ra'))
        (colocalization_analysis 50 [''1''] example_real)
       = Inr [(Some ''1'', Some 201)]"
  by code_simp

theorem matchers_write_only_derived_columns_witness:
  "(2::nat) \<noteq> 0 \<and> (2::nat) \<noteq> 1 \<and> (0::nat) \<noteq> 1 \<and> 0 < length (example_store 0)
   \<and> 0 < length (real_psi_df example_real) \<and> 1 < length (real_m6a_df example_real)
   \<and> (\<exists>st' a cnt.
         colocalization_run example_store 0 1 50 = Inr (st', a, cnt)
       \<and> same_but_site_id (example_store 0 ! 0) (st' 0 ! 0)
       \<and> st' 2 = example_store 2
       \<and> site_id (st' 1 ! 0) = Some (M6A 0)
       \<and> site_id (st' 0 ! 0) = Some (PSI 0))
   \<and> (\<exists>ra' counts rpairs.
         colocalization_analysis 50 [''1''] example_real = Inr (ra', counts, rpairs)
       \<and> same_but_columns_psi (real_psi_df example_real ! 0) (real_psi_df ra' ! 0)
       \<and> rd_chrom_std (real_psi_df ra' ! 0) = Some ''1''
       \<and> rd_center (real_psi_df ra' ! 0) = Some 201
       \<and> same_but_columns_m6a (real_m6a_df example_real ! 1) (real_m6a_df ra' ! 1)
       \<and> rm_center (real_m6a_df ra' ! 1) = Some 252)"
proof -
  have n: "(2::nat) \<noteq> 0" "(2::nat) \<noteq> 1" "(0::nat) \<noteq> 1" by simp_all
  have l: "0 < length (example_store 0)" "0 < length (example_store 1)"
    unfolding example_store_frames by simp_all
  have lr: "0 < length (real_psi_df example_real)" "1 < length (real_m6a_df example_real)"
    by (simp_all add: example_real_def)
  have v: "remove_chr (rd_chrom (real_psi_df example_real ! 0)) = ''1''"
    "(rd_start (real_psi_df example_real ! 0) + rd_end (real_psi_df example_real ! 0)) div 2 = 201"
    "peak_pos (real_m6a_df example_real ! 1) = 252"
    by (simp_all add: example_real_def)
  from matchers_write_only_derived_columns [of example_store 0 1 50 "[''1'']" example_real]
  obtain st' a cnt ra' counts rpairs where
    r: "colocalization_run example_store 0 1 50 = Inr (st', a, cnt)"
    and s: "\<forall>r. length (st' r) = length (example_store r)
              \<and> (\<forall>i < length (example_store r). same_but_site_id (example_store r ! i) (st' r ! i))"
    and o: "\<forall>r. r \<noteq> 0 \<and> r \<noteq> 1 \<longrightarrow> st' r = example_store r"
    and m: "\<forall>i < length (example_store 1). site_id (st' 1 ! i) = Some (M6A i)"
    and p: "0 \<noteq> (1::nat) \<longrightarrow> (\<forall>i < length (example_store 0). site_id (st' 0 ! i) = Some (PSI i))"
    and rr: "colocalization_analysis 50 [''1''] example_real = Inr (ra', counts, rpairs)"
    and rp: "\<forall>i < length (real_psi_df example_real).
          same_but_columns_psi (real_psi_df example_real ! i) (real_psi_df ra' ! i)
        \<and> rd_chrom_std (real_psi_df ra' ! i)
            = Some (remove_chr (rd_chrom (real_psi_df example_real ! i)))
        \<and> rd_center (real_psi_df ra' ! i)
            = Some ((rd_start (real_psi_df example_real ! i)
                     + rd_end (real_psi_df example_real ! i)) div 2)"
    and rm: "\<forall>j < length (real_m6a_df example_real).
          same_but_columns_m6a (real_m6a_df example_real ! j) (real_m6a_df ra' ! j)
        \<and> rm_chrom_std (real_m6a_df ra' ! j)
            = Some (remove_chr (rm_chrom (real_m6a_df example_real ! j)))
        \<and> rm_center (real_m6a_df ra' ! j) = Some (peak_pos (real_m6a_df example_real ! j))"
    by blast
  from s l have a1: "same_but_site_id (example_store 0 ! 0) (st' 0 ! 0)" by blast
  from o n have a2: "st' 2 = example_store 2" by blast
  from m l have a3: "site_id (st' 1 ! 0) = Some (M6A 0)" by blast
  from p n l have a4: "site_id (st' 0 ! 0) = Some (PSI 0)" by blast
  from rp lr(1) have b1: "same_but_columns_psi (real_psi_df example_real ! 0) (real_psi_df ra' ! 0)"
    and b2: "rd_chrom_std (real_psi_df ra' ! 0) = Some ''1''"
    and b3: "rd_center (real_psi_df ra' ! 0) = Some 201"
    unfolding v [symmetric] by blast+
  from rm lr(2) have b4: "same_but_columns_m6a (real_m6a_df example_real ! 1) (real_m6a_df ra' ! 1)"
    and b5: "rm_center (real_m6a_df ra' ! 1) = Some 252"
    unfolding v [symmetric] by blast+
  from r a1 a2 a3 a4 have A: "\<exists>st' a cnt.
         colocalization_run example_store 0 1 50 = Inr (st', a, cnt)
       \<and> same_but_site_id (example_store 0 ! 0) (st' 0 ! 0)
       \<and> st' 2 = example_store 2
       \<and> site_id (st' 1 ! 0) = Some (M6A 0)
       \<and> site_id (st' 0 ! 0) = Some (PSI 0)"
    by - (intro exI conjI; assumption)
  from rr b1 b2 b3 b4 b5 have B: "\<exists>ra' counts rpairs.
         colocalization_analysis 50 [''1''] example_real = Inr (ra', counts, rpairs)
       \<and> same_but_columns_psi (real_psi_df example_real ! 0) (real_psi_df ra' ! 0)
       \<and> rd_chrom_std (real_psi_df ra' ! 0) = Some ''1''
       \<and> rd_center (real_psi_df ra' ! 0) = Some 201
       \<and> same_but_columns_m6a (real_m6a_df example_real ! 1) (real_m6a_df ra' ! 1)
       \<and> rm_center (real_m6a_df ra' ! 1) = Some 252"
    by - (intro exI conjI; assumption)
  from n l(1) lr A B show ?thesis by - (intro conjI; assumption)
qed

subsection \<open>What a pair record holds\<close>

lemma scanned_pairs_member_nth:
  assumes "p \<in> set (scanned_pairs w A B)"
  shows "\<exists>i < length A. \<exists>j < length B. within_window w (A ! i) (B ! j)
           \<and> p = pair_record (the (site_id (A ! i))) (the (site_id (B ! j))) (A ! i) (B ! j)"
proof -
  from scanned_pairs_member [OF assms] obtain a m where
    "a \<in> set A" "m \<in> set B" "within_window w a m"
    "p = pair_record (the (site_id a)) (the (site_id m)) a m"
    by blast
  then show ?thesis by (metis in_set_conv_nth)
qed

text \<open>The identifiers the constructor leaves in the two frames.\<close>

lemma analyzer_init_tags:
  assumes "analyzer_init st psi m6a w = (st', a0)"
  shows "i < length (st psi) \<Longrightarrow>
           site_id (st' psi ! i) = Some (if psi = m6a then M6A i else PSI i)"
    and "j < length (st m6a) \<Longrightarrow> site_id (st' m6a ! j) = Some (M6A j)"
  using analyzer_init_frames(2,3) [OF assms] by (auto simp add: nth_assign_site_ids)

lemma genomic_midpoint:
  assumes "genomic row"
  shows "py_int (of_int (start row + endp row) / 2) = (start row + endp row) div 2"
  using assms by (intro py_int_half) (simp add: genomic_def)

lemma real_pair_of_consistent:
  assumes "remove_chr (rd_chrom x) = remove_chr (rm_chrom y)"
    and "\<bar>psi_center x - peak_pos y\<bar> \<le> w"
  shows "real_pair_consistent w x y (real_pair_of x y)"
  using assms by (simp add: real_pair_consistent_def real_pair_of_def psi_center_def)

text \<open>
  Claim C10, as amended. For coordinates in the genomic range, every pair record either
  matcher emits is consistent with its own member rows. A record of
  \<^verbatim>\<open>ColocalizationAnalyzer\<close> names exactly one row \<open>i\<close> of the \<open>\<Psi>\<close> frame and one row
  \<open>j\<close> of the m6A frame by its identifiers; its chromosome is that of both rows, its
  positions are the truncated midpoints \<open>floor((start + end) / 2)\<close> of the two rows, and
  its distance is the truncation of the absolute difference of the untruncated midpoints,
  at most the window. A record of \<^verbatim>\<open>RealDataAnalyzer\<close> is the record of a \<open>\<Psi>\<close> row and an
  m6A row with the same chromosome name once \<^verbatim>\<open>chr\<close> is removed: it holds that shortened
  name, the floor of the midpoint of the \<open>\<Psi>\<close> row, the peak position of the m6A row, and
  the absolute difference of these two integers, at most the window.
\<close>

theorem emitted_pairs_consistent:
  assumes "\<forall>row \<in> set (st psi) \<union> set (st m6a). genomic row"
    and "\<forall>row \<in> set (real_psi_df ra). genomic_psi row"
    and "\<forall>row \<in> set (real_m6a_df ra). genomic_m6a row"
  shows "(\<exists>st' a cnt pairs.
            colocalization_run st psi m6a w = Inr (st', a, cnt)
          \<and> colocalized_sites a = Some pairs
          \<and> (\<forall>p \<in> set pairs. \<exists>i j.
                member_rows (st' psi) (st' m6a) p i j
              \<and> (\<forall>i' j'. member_rows (st' psi) (st' m6a) p i' j' \<longrightarrow> i' = i \<and> j' = j)
              \<and> m6a_id p = M6A j \<and> (psi \<noteq> m6a \<longrightarrow> psi_id p = PSI i)
              \<and> pair_consistent w (st psi ! i) (st m6a ! j) p
              \<and> psi_pos p = (start (st psi ! i) + endp (st psi ! i)) div 2
              \<and> m6a_pos p = (start (st m6a ! j) + endp (st m6a ! j)) div 2))
       \<and> (\<exists>ra' counts rpairs.
            colocalization_analysis w chroms ra = Inr (ra', counts, rpairs)
          \<and> (\<forall>p \<in> set rpairs. \<exists>x \<in> set (real_psi_df ra). \<exists>y \<in> set (real_m6a_df ra).
                p = real_pair_of x y \<and> real_pair_consistent w x y p))"
proof (rule conjI)
  obtain st' a0 where i: "analyzer_init st psi m6a w = (st', a0)"
    by (cases "analyzer_init st psi m6a w")
  from colocalization_run_result [OF i] obtain a cnt where
    r: "colocalization_run st psi m6a w = Inr (st', a, cnt)"
    and c: "colocalized_sites a = Some (scanned_pairs w (st' psi) (st' m6a))"
    by auto
  note len = analyzer_init_same(1) [OF i]
  note tags = analyzer_init_tags [OF i]
  have all: "\<forall>p \<in> set (scanned_pairs w (st' psi) (st' m6a)). \<exists>i j.
                member_rows (st' psi) (st' m6a) p i j
              \<and> (\<forall>i' j'. member_rows (st' psi) (st' m6a) p i' j' \<longrightarrow> i' = i \<and> j' = j)
              \<and> m6a_id p = M6A j \<and> (psi \<noteq> m6a \<longrightarrow> psi_id p = PSI i)
              \<and> pair_consistent w (st psi ! i) (st m6a ! j) p
              \<and> psi_pos p = (start (st psi ! i) + endp (st psi ! i)) div 2
              \<and> m6a_pos p = (start (st m6a ! j) + endp (st m6a ! j)) div 2"
  proof (rule ballI)
    fix p assume that: "p \<in> set (scanned_pairs w (st' psi) (st' m6a))"
    from scanned_pairs_member_nth [OF that] obtain k l where
      k: "k < length (st' psi)" and l: "l < length (st' m6a)"
      and ww: "within_window w (st' psi ! k) (st' m6a ! l)"
      and p: "p = pair_record (the (site_id (st' psi ! k))) (the (site_id (st' m6a ! l)))
                    (st' psi ! k) (st' m6a ! l)"
      by blast
    have k': "k < length (st psi)" and l': "l < length (st m6a)"
      using k l len by simp_all
    have pid: "psi_id p = (if psi = m6a then M6A k else PSI k)"
      and mid: "m6a_id p = M6A l"
      unfolding p using tags(1) [OF k'] tags(2) [OF l'] by simp_all
    have mem: "member_rows (st' psi) (st' m6a) p k l"
      unfolding member_rows_def using k l pid mid tags(1) [OF k'] tags(2) [OF l'] by simp
    have uniq: "i' = k \<and> j' = l" if m: "member_rows (st' psi) (st' m6a) p i' j'" for i' j'
    proof -
      from m have b: "i' < length (st psi)" "j' < length (st m6a)"
        and e: "site_id (st' psi ! i') = Some (psi_id p)" "site_id (st' m6a ! j') = Some (m6a_id p)"
        unfolding member_rows_def using len by simp_all
      from e(1) tags(1) [OF b(1)] pid have "i' = k" by (simp split: if_splits)
      moreover from e(2) tags(2) [OF b(2)] mid have "j' = l" by simp
      ultimately show ?thesis ..
    qed
    note sa = analyzer_init_same(2) [OF i k']
    note sb = analyzer_init_same(2) [OF i l']
    note q = pair_record_consistent [OF ww sa sb,
        of "the (site_id (st' psi ! k))" "the (site_id (st' m6a ! l))"]
    have ga: "genomic (st psi ! k)" and gb: "genomic (st m6a ! l)"
      using assms(1) k' l' nth_mem by blast+
    have h1: "psi_pos p = (start (st psi ! k) + endp (st psi ! k)) div 2"
      unfolding p q(3) by (rule genomic_midpoint [OF ga])
    have h2: "m6a_pos p = (start (st m6a ! l) + endp (st m6a ! l)) div 2"
      unfolding p q(4) by (rule genomic_midpoint [OF gb])
    have pc: "pair_consistent w (st psi ! k) (st m6a ! l) p"
      unfolding pair_consistent_def using q [folded p] h1 h2 by blast
    show "\<exists>i j.
                member_rows (st' psi) (st' m6a) p i j
              \<and> (\<forall>i' j'. member_rows (st' psi) (st' m6a) p i' j' \<longrightarrow> i' = i \<and> j' = j)
              \<and> m6a_id p = M6A j \<and> (psi \<noteq> m6a \<longrightarrow> psi_id p = PSI i)
              \<and> pair_consistent w (st psi ! i) (st m6a ! j) p
              \<and> psi_pos p = (start (st psi ! i) + endp (st psi ! i)) div 2
              \<and> m6a_pos p = (start (st m6a ! j) + endp (st m6a ! j)) div 2"
    proof (intro exI conjI)
      show "member_rows (st' psi) (st' m6a) p k l" by (rule mem)
      show "\<forall>i' j'. member_rows (st' psi) (st' m6a) p i' j' \<longrightarrow> i' = k \<and> j' = l"
        using uniq by blast
      show "m6a_id p = M6A l" by (rule mid)
      show "psi \<noteq> m6a \<longrightarrow> psi_id p = PSI k" using pid by simp
      show "pair_consistent w (st psi ! k) (st m6a ! l) p" by (rule pc)
      show "psi_pos p = (start (st psi ! k) + endp (st psi ! k)) div 2" by (rule h1)
      show "m6a_pos p = (start (st m6a ! l) + endp (st m6a ! l)) div 2" by (rule h2)
    qed
  qed
  show "\<exists>st' a cnt pairs.
            colocalization_run st psi m6a w = Inr (st', a, cnt)
          \<and> colocalized_sites a = Some pairs
          \<and> (\<forall>p \<in> set pairs. \<exists>i j.
                member_rows (st' psi) (st' m6a) p i j
              \<and> (\<forall>i' j'. member_rows (st' psi) (st' m6a) p i' j' \<longrightarrow> i' = i \<and> j' = j)
              \<and> m6a_id p = M6A j \<and> (psi \<noteq> m6a \<longrightarrow> psi_id p = PSI i)
              \<and> pair_consistent w (st psi ! i) (st m6a ! j) p
              \<and> psi_pos p = (start (st psi ! i) + endp (st psi ! i)) div 2
              \<and> m6a_pos p = (start (st m6a ! j) + endp (st m6a ! j)) div 2)"
    by (intro exI conjI) (rule r, rule c, rule all)
next
  let ?P = "all_chrom_pairs w chroms (real_psi_df ra) (real_m6a_df ra)"
  have all: "\<forall>p \<in> set ?P. \<exists>x \<in> set (real_psi_df ra). \<exists>y \<in> set (real_m6a_df ra).
          p = real_pair_of x y \<and> real_pair_consistent w x y p"
  proof (rule ballI)
    fix p assume that: "p \<in> set ?P"
    from that obtain x y where
      "x \<in> set (real_psi_df ra)" "y \<in> set (real_m6a_df ra)" "p = real_pair_of x y"
      "remove_chr (rm_chrom y) = remove_chr (rd_chrom x)" "\<bar>psi_center x - peak_pos y\<bar> \<le> w"
      unfolding all_chrom_pairs_set by blast
    then show "\<exists>x \<in> set (real_psi_df ra). \<exists>y \<in> set (real_m6a_df ra).
          p = real_pair_of x y \<and> real_pair_consistent w x y p"
      using real_pair_of_consistent [of x y w] by auto
  qed
  show "\<exists>ra' counts rpairs.
            colocalization_analysis w chroms ra = Inr (ra', counts, rpairs)
          \<and> (\<forall>p \<in> set rpairs. \<exists>x \<in> set (real_psi_df ra). \<exists>y \<in> set (real_m6a_df ra).
                p = real_pair_of x y \<and> real_pair_consistent w x y p)"
    by (intro exI conjI) (rule colocalization_analysis_result, rule all)
qed

text \<open>
  Claim C10 as stated fails for the pair table of \<^verbatim>\<open>RealDataAnalyzer\<close>: for the \<open>\<Psi>\<close> row
  \<open>[200, 203)\<close> and the m6A row with peak 251 on \<^verbatim>\<open>chr1\<close> the record holds the chromosome
  \<^verbatim>\<open>1\<close>, not that of the rows, and the distance 50 of the floor midpoint 201 from the
  peak, where the truncated difference of the untruncated midpoint 201.5 from 251 is 49.
\<close>

theorem real_pair_record_example:
  "map_sum id (\<lambda>(ra', counts, rpairs). rpairs) (colocalization_analysis 50 [''1''] example_real)
     = Inr [\<lparr>rp_chrom = ''1'', rp_psi_pos = 201, rp_m6a_pos = 251, rp_distance = 50\<rparr>]
   \<and> map rd_chrom (real_psi_df example_real) = [''chr1'']
   \<and> map rm_chrom (real_m6a_df example_real) = [''chr1'', ''chr1'']
   \<and> py_int \<bar>of_int (200 + 203) / 2 - of_int 251\<bar> = 49"
  by code_simp

lemma example_real_pairs:
  "colocalization_analysis 50 [''1''] example_real =
     Inr (write_columns example_real, (1, 1, 2),
          [\<lparr>rp_chrom = ''1'', rp_psi_pos = 201, rp_m6a_pos = 251, rp_distance = 50\<rparr>])"
  unfolding colocalization_analysis_result by code_simp

lemma example_genomic:
  "\<forall>row \<in> set (example_store 0) \<union> set (example_store 1). genomic row"
  "\<forall>row \<in> set (real_psi_df example_real). genomic_psi row"
  "\<forall>row \<in> set (real_m6a_df example_real). genomic_m6a row"
  unfolding example_store_frames
  by (simp_all add: genomic_def genomic_psi_def genomic_m6a_def bed_row_def example_real_def)

theorem emitted_pairs_consistent_witness:
  "list_all genomic (example_store 0 @ example_store 1)
   \<and> list_all genomic_psi (real_psi_df example_real)
   \<and> list_all genomic_m6a (real_m6a_df example_real)
   \<and> (0::nat) \<noteq> 1
   \<and> (\<exists>st' a cnt pairs.
         colocalization_run example_store 0 1 50 = Inr (st', a, cnt)
       \<and> colocalized_sites a = Some pairs \<and> length pairs = 3
       \<and> (\<forall>p \<in> set pairs. psi_id p = PSI 0 \<and> pair_chrom p = ''chr1'' \<and> psi_pos p = 1500
              \<and> 0 \<le> distance p \<and> distance p \<le> 50))
   \<and> (\<exists>ra' counts rpairs.
         colocalization_analysis 50 [''1''] example_real = Inr (ra', counts, rpairs)
       \<and> length rpairs = 1
       \<and> (\<forall>p \<in> set rpairs. rp_chrom p = ''1'' \<and> rp_psi_pos p = 201
              \<and> 0 \<le> rp_distance p \<and> rp_distance p \<le> 50))"
proof -
  note g = example_genomic
  have n: "(0::nat) \<noteq> 1" by simp
  from emitted_pairs_consistent [where st = example_store and psi = 0 and m6a = 1
      and ra = example_real and w = 50 and chroms = "[''1'']", OF g]
  obtain st' a cnt pairs ra' counts rpairs where
    r: "colocalization_run example_store 0 1 50 = Inr (st', a, cnt)"
      "colocalized_sites a = Some pairs"
    and k: "\<forall>p \<in> set pairs. \<exists>i j.
                member_rows (st' 0) (st' 1) p i j
              \<and> (\<forall>i' j'. member_rows (st' 0) (st' 1) p i' j' \<longrightarrow> i' = i \<and> j' = j)
              \<and> m6a_id p = M6A j \<and> ((0::nat) \<noteq> 1 \<longrightarrow> psi_id p = PSI i)
              \<and> pair_consistent 50 (example_store 0 ! i) (example_store 1 ! j) p
              \<and> psi_pos p = (start (example_store 0 ! i) + endp (example_store 0 ! i)) div 2
              \<and> m6a_pos p = (start (example_store 1 ! j) + endp (example_store 1 ! j)) div 2"
    and rr: "colocalization_analysis 50 [''1''] example_real = Inr (ra', counts, rpairs)"
    and kr: "\<forall>p \<in> set rpairs. \<exists>x \<in> set (real_psi_df example_real).
                \<exists>y \<in> set (real_m6a_df example_real).
                p = real_pair_of x y \<and> real_pair_consistent 50 x y p"
    by blast
  from example_run_lengths(2) r have l: "length pairs = 3" by simp
  from colocalization_run_result [of example_store 0 1 50] r
  have len0: "length (st' 0) = 1"
    using analyzer_init_same(1) [of example_store 0 1 50 _ _ 0]
    by (cases "analyzer_init example_store 0 1 (50::int)") (simp add: example_store_frames)
  have A1: "psi_id p = PSI 0 \<and> pair_chrom p = ''chr1'' \<and> psi_pos p = 1500
              \<and> 0 \<le> distance p \<and> distance p \<le> 50"
    if "p \<in> set pairs" for p
  proof -
    from k that n obtain i j where
      m: "member_rows (st' 0) (st' 1) p i j" and pi: "psi_id p = PSI i"
      and pc: "pair_consistent 50 (example_store 0 ! i) (example_store 1 ! j) p"
      by blast
    from m len0 have "i = 0" by (simp add: member_rows_def)
    with pi pc show ?thesis
      by (simp add: pair_consistent_def example_store_frames bed_row_def)
  qed
  from rr example_real_pairs have rl: "length rpairs = 1" by auto
  have B1: "rp_chrom p = ''1'' \<and> rp_psi_pos p = 201 \<and> 0 \<le> rp_distance p \<and> rp_distance p \<le> 50"
    if "p \<in> set rpairs" for p
  proof -
    from kr that obtain x y where
      "x \<in> set (real_psi_df example_real)" "y \<in> set (real_m6a_df example_real)"
      and c: "real_pair_consistent 50 x y p"
      by blast
    then have "x = \<lparr>rd_chrom = ''chr1'', rd_start = 200, rd_end = 203,
                     rd_chrom_std = None, rd_center = None\<rparr>"
      by (simp add: example_real_def)
    with c show ?thesis by (simp add: real_pair_consistent_def)
  qed
  from r l A1 have A: "\<exists>st' a cnt pairs.
         colocalization_run example_store 0 1 50 = Inr (st', a, cnt)
       \<and> colocalized_sites a = Some pairs \<and> length pairs = 3
       \<and> (\<forall>p \<in> set pairs. psi_id p = PSI 0 \<and> pair_chrom p = ''chr1'' \<and> psi_pos p = 1500
              \<and> 0 \<le> distance p \<and> distance p \<le> 50)"
    by - (intro exI conjI ballI; (assumption | blast))
  from rr rl B1 have B: "\<exists>ra' counts rpairs.
         colocalization_analysis 50 [''1''] example_real = Inr (ra', counts, rpairs)
       \<and> length rpairs = 1
       \<and> (\<forall>p \<in> set rpairs. rp_chrom p = ''1'' \<and> rp_psi_pos p = 201
              \<and> 0 \<le> rp_distance p \<and> rp_distance p \<le> 50)"
    by - (intro exI conjI ballI; (assumption | blast))
  from g have g': "list_all genomic (example_store 0 @ example_store 1)"
    "list_all genomic_psi (real_psi_df example_real)"
    "list_all genomic_m6a (real_m6a_df example_real)"
    by (simp_all add: list_all_iff)
  from g' n A B show ?thesis by - (intro conjI; assumption)
qed

end
